theory Spec2Isabelle
  imports Complex_Main "HOL-Library.Char_ord" "HOL-Library.List_Lexorder"
    "HOL-Library.Product_Lexorder"
begin

section \<open>Data model\<close>

text \<open>
  Modelled from the spec: the \<^verbatim>\<open>Status\<close> enumeration is imported from
  \<^verbatim>\<open>distributed.core\<close>, which is not part of the sources at hand; the
  specification lists the worker statuses below.
\<close>

datatype status = Init | Running | Paused | Closing_gracefully | Closed

text \<open>
  The task states: the six members of \<^verbatim>\<open>ALL_TASK_STATES\<close> and \<^verbatim>\<open>"forgotten"\<close>.
\<close>

datatype task_status = Released | Waiting | No_worker | Processing | Memory | Erred | Forgotten

text \<open>Python exceptions that the modelled functions can raise.\<close>

datatype py_error =
  ZeroDivisionError | KeyError | RuntimeError | AssertionError | ValueError | AttributeError
  | TypeError

definition bind_err :: "'e + 'a \<Rightarrow> ('a \<Rightarrow> 'e + 'b) \<Rightarrow> 'e + 'b" where
  "bind_err m f = (case m of Inl e \<Rightarrow> Inl e | Inr x \<Rightarrow> f x)"

text \<open>
  Objects are identified with their keys: \<^verbatim>\<open>TaskState\<close> objects compare and hash by
  \<^verbatim>\<open>key\<close>, \<^verbatim>\<open>WorkerState\<close> objects by \<^verbatim>\<open>address\<close>, so a set of tasks is a
  set of keys and a set of workers a set of addresses. A reference to an object is its key,
  and the scheduler state holds one object per key (\<open>task_obj\<close>, \<open>worker_obj\<close>,
  \<open>group_obj\<close>) next to the dictionaries that register them (\<open>tasks\<close>,
  \<open>workers\<close>); an object that has been dropped from its dictionary can still be reached
  through a reference, as in Python. C doubles are taken as exact rationals.
\<close>

text \<open>
  \<^verbatim>\<open>WorkerState\<close>. \<^verbatim>\<open>processing\<close> is a dict from task key to estimated cost and
  \<^verbatim>\<open>has_what\<close> an insertion-ordered dict used as a set; both are lists in insertion
  order. \<open>ws_host\<close> is the value of the property \<^verbatim>\<open>host\<close>
  (\<^verbatim>\<open>get_address_host(address)\<close>, defined outside the sources at hand). The three
  \<open>ws_metrics\<close> fields are the entries \<^verbatim>\<open>metrics["memory"]\<close>,
  \<^verbatim>\<open>metrics["spilled_nbytes"]["memory"]\<close> and \<^verbatim>\<open>metrics["spilled_nbytes"]["disk"]\<close>
  of the last heartbeat.
\<close>

record worker_state =
  ws_address :: string
  ws_host :: string
  ws_status :: status
  ws_nthreads :: int
  ws_memory_limit :: int
  ws_nbytes :: int
  ws_occupancy :: rat
  ws_processing :: "(string \<times> rat) list"
  ws_has_what :: "string list"
  ws_actors :: "string set"
  ws_used_resources :: "string \<rightharpoonup> rat"
  ws_executing :: "string \<rightharpoonup> rat"
  ws_long_running :: "string set"
  ws_metrics_memory :: "int option"
  ws_metrics_spilled_memory :: int
  ws_metrics_spilled_disk :: int
  ws_memory_unmanaged_old :: int

text \<open>
  \<^verbatim>\<open>TaskState\<close>. \<open>ts_run_spec\<close> is the truth value of the opaque
  \<^verbatim>\<open>run_spec\<close>. \<open>ts_dependencies\<close> is a set in the source; it is a list (its
  iteration order, without duplicates) because \<^verbatim>\<open>transition_released_waiting\<close>
  stops at the first dependency that carries a blame. A restriction is \<open>None\<close> or a
  collection, and Python treats an empty collection like \<open>None\<close>.
\<close>

record task_state =
  ts_key :: string
  ts_run_spec :: bool
  ts_state :: task_status
  ts_exception :: "string option"
  ts_traceback :: "string option"
  ts_exception_blame :: "string option"
  ts_retries :: int
  ts_nbytes :: int
  ts_who_wants :: "string set"
  ts_dependencies :: "string list"
  ts_dependents :: "string set"
  ts_waiting_on :: "string set"
  ts_waiters :: "string set"
  ts_who_has :: "string set"
  ts_processing_on :: "string option"
  ts_has_lost_dependencies :: bool
  ts_host_restrictions :: "string set option"
  ts_worker_restrictions :: "string set option"
  ts_resource_restrictions :: "(string \<times> rat) list option"
  ts_loose_restrictions :: bool
  ts_actor :: bool
  ts_type :: "string option"
  ts_group :: string
  ts_prefix :: string
  ts_erred_on :: "string option set"

text \<open>
  \<^verbatim>\<open>TaskGroup\<close>: the per-state task counts, the names of the groups it depends on (in
  iteration order, without duplicates), the worker last used for its root tasks and the
  type names of its results. The timing statistics of a group are left out; of a
  \<^verbatim>\<open>TaskPrefix\<close> only the duration average is kept, in the scheduler state.
\<close>

record task_group =
  tg_name :: string
  tg_states :: "task_status \<Rightarrow> int"
  tg_dependencies :: "string list"
  tg_last_worker :: "string option"
  tg_last_worker_tasks_left :: int
  tg_types :: "string option set"

text \<open>
  \<^verbatim>\<open>SchedulerState\<close>. \<open>workers\<close> lists the keys of the sorted dict of workers in
  iteration order (ascending address); \<open>idle\<close> is a sorted dict keyed by address and is
  iterated in ascending order of its keys. \<open>wants_what\<close> maps a client key to the keys
  of the tasks it wants. \<open>default_data_size\<close> is the module constant
  \<^verbatim>\<open>DEFAULT_DATA_SIZE\<close>, read from the configuration, as are the four
  \<open>memory_rebalance\<close> settings, \<open>unknown_task_duration\<close> and the length of
  the transition log (a bounded deque, whose time stamps are left out). No plugin and no
  work-stealing extension is installed: their code is outside the sources at hand.
\<close>

datatype measure_name =
  Process | Optimistic | Managed | Managed_in_memory | Managed_spilled
  | Unmanaged | Unmanaged_old | Unmanaged_recent

record scheduler_state =
  tasks :: "string set"
  task_obj :: "string \<Rightarrow> task_state"
  workers :: "string list"
  worker_obj :: "string \<Rightarrow> worker_state"
  task_groups :: "string set"
  group_obj :: "string \<Rightarrow> task_group"
  clients :: "string set"
  wants_what :: "string \<Rightarrow> string set"
  aliases :: "string \<rightharpoonup> string"
  host_info :: "string \<rightharpoonup> string set"
  resources :: "string \<rightharpoonup> (string \<times> rat) list"
  running :: "string set"
  idle :: "string set"
  saturated :: "string set"
  unrunnable :: "string set"
  replicated_tasks :: "string set"
  total_nthreads :: int
  total_occupancy :: rat
  n_tasks :: int
  bandwidth :: rat
  default_data_size :: int
  transition_counter :: int
  memory_rebalance_measure :: measure_name
  memory_rebalance_sender_min :: rat
  memory_rebalance_recipient_max :: rat
  memory_rebalance_half_gap :: rat
  prefix_duration_average :: "string \<Rightarrow> rat"
  unknown_durations :: "string \<rightharpoonup> string list"
  unknown_task_duration :: rat
  transition_log :: "(string \<times> task_status \<times> task_status \<times> (string \<rightharpoonup> task_status)) list"
  transition_log_length :: nat

text \<open>The values a freshly constructed object has (\<^verbatim>\<open>__init__\<close>).\<close>

definition new_worker :: "string \<Rightarrow> string \<Rightarrow> status \<Rightarrow> int \<Rightarrow> int \<Rightarrow> worker_state" where
  "new_worker addr h stat n ml =
     \<lparr>ws_address = addr, ws_host = h, ws_status = stat, ws_nthreads = n,
      ws_memory_limit = ml, ws_nbytes = 0, ws_occupancy = 0, ws_processing = [],
      ws_has_what = [], ws_actors = {}, ws_used_resources = Map.empty,
      ws_executing = Map.empty, ws_long_running = {},
      ws_metrics_memory = None, ws_metrics_spilled_memory = 0, ws_metrics_spilled_disk = 0,
      ws_memory_unmanaged_old = 0\<rparr>"

definition new_task :: "string \<Rightarrow> bool \<Rightarrow> task_status \<Rightarrow> string \<Rightarrow> task_state" where
  "new_task k spec stat g =
     \<lparr>ts_key = k, ts_run_spec = spec, ts_state = stat, ts_exception = None,
      ts_traceback = None, ts_exception_blame = None, ts_retries = 0, ts_nbytes = - 1,
      ts_who_wants = {}, ts_dependencies = [], ts_dependents = {}, ts_waiting_on = {},
      ts_waiters = {}, ts_who_has = {}, ts_processing_on = None,
      ts_has_lost_dependencies = False, ts_host_restrictions = None,
      ts_worker_restrictions = None, ts_resource_restrictions = None,
      ts_loose_restrictions = False, ts_actor = False, ts_type = None, ts_group = g,
      ts_prefix = g, ts_erred_on = {}\<rparr>"

definition new_group :: "string \<Rightarrow> task_group" where
  "new_group g =
     \<lparr>tg_name = g, tg_states = (\<lambda>_. 0), tg_dependencies = [], tg_last_worker = None,
      tg_last_worker_tasks_left = 0, tg_types = {}\<rparr>"

definition empty_scheduler :: scheduler_state where
  "empty_scheduler =
     \<lparr>tasks = {}, task_obj = (\<lambda>k. new_task k False Released []), workers = [],
      worker_obj = (\<lambda>a. new_worker a [] Closed 0 0), task_groups = {},
      group_obj = new_group, clients = {}, wants_what = (\<lambda>_. {}), aliases = Map.empty,
      host_info = Map.empty, resources = Map.empty, running = {}, idle = {},
      saturated = {}, unrunnable = {}, replicated_tasks = {}, total_nthreads = 0,
      total_occupancy = 0, n_tasks = 0, bandwidth = 100000000, default_data_size = 1000,
      transition_counter = 0, memory_rebalance_measure = Optimistic,
      memory_rebalance_sender_min = 3 / 10, memory_rebalance_recipient_max = 6 / 10,
      memory_rebalance_half_gap = 1 / 10 / 2, prefix_duration_average = (\<lambda>_. - 1),
      unknown_durations = Map.empty, unknown_task_duration = 1 / 2, transition_log = [],
      transition_log_length = 100000\<rparr>"

section \<open>Idle and saturated workers\<close>

text \<open>
  \<^verbatim>\<open>SchedulerState.check_idle_saturated(ws, occ=-1.0)\<close>, with \<open>a\<close> the address of
  \<^verbatim>\<open>ws\<close>. The division \<^verbatim>\<open>occ * (p - nc) / (p * nc)\<close> raises when
  \<^verbatim>\<open>p * nc\<close> is zero; the division by \<^verbatim>\<open>total_nthreads\<close> is guarded by the first
  test.
\<close>

definition pending_metric :: "rat \<Rightarrow> int \<Rightarrow> int \<Rightarrow> rat" where
  "pending_metric occ p nc = occ * of_int (p - nc) / of_int (p * nc)"

definition check_idle_saturated ::
  "scheduler_state \<Rightarrow> string \<Rightarrow> rat \<Rightarrow> py_error + scheduler_state" where
  "check_idle_saturated st a occ0 =
     (let ws = worker_obj st a in
      if total_nthreads st = 0 \<or> ws_status ws = Closed then Inr st
      else
        let occ = (if occ0 < 0 then ws_occupancy ws else occ0);
            nc = ws_nthreads ws;
            p = int (length (ws_processing ws));
            avg = total_occupancy st / of_int (total_nthreads st)
        in if p < nc \<or> occ < of_int nc * avg / 2
           then Inr (st\<lparr>idle := insert a (idle st), saturated := saturated st - {a}\<rparr>)
           else
             let st1 = st\<lparr>idle := idle st - {a}\<rparr>
             in if p > nc
                then (if p * nc = 0 then Inl ZeroDivisionError
                      else if 4 / 10 < pending_metric occ p nc
                              \<and> pending_metric occ p nc > 19 / 10 * avg
                           then Inr (st1\<lparr>saturated := insert a (saturated st1)\<rparr>)
                           else Inr (st1\<lparr>saturated := saturated st1 - {a}\<rparr>))
                else Inr (st1\<lparr>saturated := saturated st1 - {a}\<rparr>))"


section \<open>Heartbeat interval\<close>

text \<open>
  \<^verbatim>\<open>heartbeat_interval(n)\<close> of \<^verbatim>\<open>scheduler.py\<close>. The argument is
  \<^verbatim>\<open>len(workers)\<close>; the result is a number of seconds. Python's true division
  \<^verbatim>\<open>n / 200\<close> is taken in exact rational arithmetic.
\<close>

definition heartbeat_interval :: "int \<Rightarrow> rat" where
  "heartbeat_interval n =
     (if n \<le> 10 then 1 / 2
      else if n < 50 then 1
      else if n < 200 then 2
      else of_int n / 200 + 1)"

section \<open>Choosing a worker for a task\<close>

text \<open>\<^verbatim>\<open>TaskState.get_nbytes\<close>, \<^verbatim>\<open>TaskGroup.__len__\<close> and the setter of
  \<^verbatim>\<open>TaskState.state\<close>, which moves one unit between the counters of the task's group.\<close>

definition get_nbytes :: "scheduler_state \<Rightarrow> task_state \<Rightarrow> int" where
  "get_nbytes st ts = (if ts_nbytes ts \<ge> 0 then ts_nbytes ts else default_data_size st)"

definition all_task_states :: "task_status list" where
  "all_task_states = [Released, Waiting, No_worker, Processing, Erred, Memory, Forgotten]"

definition tg_len :: "task_group \<Rightarrow> int" where
  "tg_len tg = sum_list (map (tg_states tg) all_task_states)"

definition set_state :: "scheduler_state \<Rightarrow> string \<Rightarrow> task_status \<Rightarrow> scheduler_state" where
  "set_state st k v =
     (let ts = task_obj st k;
          g = ts_group ts;
          tg = group_obj st g;
          c1 = (tg_states tg)(ts_state ts := tg_states tg (ts_state ts) - 1);
          c2 = c1(v := c1 v + 1)
      in st\<lparr>group_obj := (group_obj st)(g := tg\<lparr>tg_states := c2\<rparr>),
            task_obj := (task_obj st)(k := ts\<lparr>ts_state := v\<rparr>)\<rparr>)"

text \<open>
  \<^verbatim>\<open>SchedulerState.coerce_hostname\<close>: an alias is replaced by the host of the worker
  registered under the aliased address; the lookup \<^verbatim>\<open>self._workers_dv[alias]\<close> raises
  when that worker is not connected.
\<close>

definition coerce_hostname :: "scheduler_state \<Rightarrow> string \<Rightarrow> py_error + string" where
  "coerce_hostname st h =
     (case aliases st h of
        Some alias \<Rightarrow>
          if alias \<in> set (workers st) then Inr (ws_host (worker_obj st alias))
          else Inl KeyError
      | None \<Rightarrow> Inr h)"

text \<open>
  \<^verbatim>\<open>SchedulerState.valid_workers\<close>, block by block. \<open>s\<close> is the variable
  \<^verbatim>\<open>s\<close> of the source: \<open>None\<close> or a set of addresses.
\<close>

definition restrict_workers :: "scheduler_state \<Rightarrow> task_state \<Rightarrow> string set option" where
  "restrict_workers st ts =
     (case ts_worker_restrictions ts of
        None \<Rightarrow> None
      | Some wr \<Rightarrow> if wr = {} then None else Some (wr \<inter> set (workers st)))"

definition host_addresses :: "scheduler_state \<Rightarrow> string \<Rightarrow> string set" where
  "host_addresses st h =
     (case coerce_hostname st h of
        Inl e \<Rightarrow> {}
      | Inr h' \<Rightarrow> (case host_info st h' of None \<Rightarrow> {} | Some addrs \<Rightarrow> addrs))"

definition restrict_hosts ::
  "scheduler_state \<Rightarrow> task_state \<Rightarrow> string set option \<Rightarrow> py_error + string set option" where
  "restrict_hosts st ts s =
     (case ts_host_restrictions ts of
        None \<Rightarrow> Inr s
      | Some hs \<Rightarrow>
          if hs = {} then Inr s
          else if \<exists>h\<in>hs. coerce_hostname st h = Inl KeyError then Inl KeyError
          else let ss = (\<Union>h\<in>hs. host_addresses st h)
               in Inr (Some (case s of None \<Rightarrow> ss | Some s0 \<Rightarrow> s0 \<union> ss)))"

definition supplying :: "scheduler_state \<Rightarrow> string \<Rightarrow> rat \<Rightarrow> string set" where
  "supplying st resource required =
     (case resources st resource of
        None \<Rightarrow> {}
      | Some dr \<Rightarrow> set (map fst (filter (\<lambda>(addr, supplied). supplied \<ge> required) dr)))"

definition restrict_resources ::
  "scheduler_state \<Rightarrow> task_state \<Rightarrow> string set option \<Rightarrow> string set option \<times> scheduler_state" where
  "restrict_resources st ts s =
     (case ts_resource_restrictions ts of
        None \<Rightarrow> (s, st)
      | Some rr \<Rightarrow>
          if rr = [] then (s, st)
          else
            let ww = (\<Inter>(resource, required)\<in>set rr. supplying st resource required);
                res' = fold (\<lambda>(resource, required) m.
                              if m resource = None then m(resource \<mapsto> []) else m)
                         rr (resources st)
            in (Some (case s of None \<Rightarrow> ww | Some s0 \<Rightarrow> s0 \<inter> ww), st\<lparr>resources := res'\<rparr>))"

definition restrict_running ::
  "scheduler_state \<Rightarrow> string set option \<Rightarrow> py_error + string set option" where
  "restrict_running st s =
     (case s of
        None \<Rightarrow>
          if int (card (running st)) < int (length (workers st)) then Inr (Some (running st))
          else Inr None
      | Some s0 \<Rightarrow>
          if \<exists>addr\<in>s0. addr \<notin> set (workers st) then Inl KeyError
          else if int (card (running st)) < int (length (workers st))
               then Inr (Some (s0 \<inter> running st))
               else Inr (Some s0))"

definition valid_workers ::
  "scheduler_state \<Rightarrow> string \<Rightarrow> py_error + (string set option \<times> scheduler_state)" where
  "valid_workers st k =
     (let ts = task_obj st k
      in bind_err (restrict_hosts st ts (restrict_workers st ts)) (\<lambda>s2.
           let (s3, st') = restrict_resources st ts s2
           in bind_err (restrict_running st' s3) (\<lambda>s4. Inr (s4, st'))))"

text \<open>
  \<^verbatim>\<open>SchedulerState.worker_objective\<close>. The result is a Python tuple, compared
  lexicographically; it is a list of rationals here.
\<close>

definition worker_objective :: "scheduler_state \<Rightarrow> string \<Rightarrow> string \<Rightarrow> py_error + rat list" where
  "worker_objective st k a =
     (let ts = task_obj st k;
          ws = worker_obj st a;
          comm_bytes = sum_list (map (\<lambda>d. get_nbytes st (task_obj st d))
                         (filter (\<lambda>d. a \<notin> ts_who_has (task_obj st d)) (ts_dependencies ts)))
      in if ws_nthreads ws = 0 then Inl ZeroDivisionError
         else if bandwidth st = 0 then Inl ZeroDivisionError
         else
           let stack_time = ws_occupancy ws / of_int (ws_nthreads ws);
               start_time = stack_time + of_int comm_bytes / bandwidth st
           in if ts_actor ts
              then Inr [of_nat (card (ws_actors ws)), start_time, of_int (ws_nbytes ws)]
              else Inr [start_time, of_int (ws_nbytes ws)])"

text \<open>
  Python's \<^verbatim>\<open>min(iterable, key=f)\<close>: the first element, in iteration order, whose key
  is minimal; \<^verbatim>\<open>ValueError\<close> on an empty iterable, and any exception of \<^verbatim>\<open>f\<close>
  is passed on.
\<close>

primrec first_min :: "('a \<times> 'k::linorder) \<Rightarrow> ('a \<times> 'k) list \<Rightarrow> 'a" where
  "first_min best [] = fst best"
| "first_min best (x # xs) = first_min (if snd x < snd best then x else best) xs"

primrec eval_keys :: "('a \<Rightarrow> py_error + 'k) \<Rightarrow> 'a list \<Rightarrow> py_error + ('a \<times> 'k) list" where
  "eval_keys f [] = Inr []"
| "eval_keys f (x # xs) =
     bind_err (f x) (\<lambda>kx. bind_err (eval_keys f xs) (\<lambda>rest. Inr ((x, kx) # rest)))"

definition py_min :: "('a \<Rightarrow> py_error + 'k::linorder) \<Rightarrow> 'a list \<Rightarrow> py_error + 'a" where
  "py_min f xs =
     bind_err (eval_keys f xs)
       (\<lambda>ps. case ps of [] \<Rightarrow> Inl ValueError | p # rest \<Rightarrow> Inr (first_min p rest))"

text \<open>
  The module-level function \<^verbatim>\<open>decide_worker(ts, all_workers, valid_workers, objective)\<close>.
  Its only recursive call passes \<^verbatim>\<open>valid_workers=None\<close>, so the function is given in
  two steps: \<open>decide_worker_any\<close> is the body for \<^verbatim>\<open>valid_workers is None\<close>. A
  Python set is iterated in an order that the language leaves open; the candidates are
  taken in ascending order of address.
\<close>

definition choose_candidate ::
  "scheduler_state \<Rightarrow> string \<Rightarrow> string set \<Rightarrow> py_error + string option" where
  "choose_candidate st k candidates =
     (if candidates = {} then Inr None
      else if card candidates = 1 then Inr (Some (the_elem candidates))
      else bind_err (py_min (worker_objective st k) (sorted_list_of_set candidates))
             (\<lambda>a. Inr (Some a)))"

definition dependency_holders :: "scheduler_state \<Rightarrow> string \<Rightarrow> string list \<Rightarrow> string set" where
  "dependency_holders st k all_workers =
     (if ts_actor (task_obj st k) then set all_workers
      else (\<Union>d\<in>set (ts_dependencies (task_obj st k)). ts_who_has (task_obj st d)))"

definition decide_worker_any ::
  "scheduler_state \<Rightarrow> string \<Rightarrow> string list \<Rightarrow> py_error + string option" where
  "decide_worker_any st k all_workers =
     (if \<exists>d\<in>set (ts_dependencies (task_obj st k)). ts_who_has (task_obj st d) = {}
      then Inl AssertionError
      else
        let candidates = dependency_holders st k all_workers
        in choose_candidate st k (if candidates = {} then set all_workers else candidates))"

definition decide_worker_fn ::
  "scheduler_state \<Rightarrow> string \<Rightarrow> string list \<Rightarrow> string set option \<Rightarrow> py_error + string option" where
  "decide_worker_fn st k all_workers valid =
     (case valid of
        None \<Rightarrow> decide_worker_any st k all_workers
      | Some vw \<Rightarrow>
          if \<exists>d\<in>set (ts_dependencies (task_obj st k)). ts_who_has (task_obj st d) = {}
          then Inl AssertionError
          else
            let candidates = dependency_holders st k all_workers \<inter> vw
            in if candidates = {}
               then (if vw = {}
                     then (if ts_loose_restrictions (task_obj st k)
                           then decide_worker_any st k all_workers
                           else Inr None)
                     else choose_candidate st k vw)
               else choose_candidate st k candidates)"

text \<open>
  The method \<^verbatim>\<open>SchedulerState.decide_worker\<close>. The pool \<^verbatim>\<open>self._idle or self._workers\<close>
  is the idle workers when there are any, else all workers, in ascending order of address.
\<close>

definition worker_pool :: "scheduler_state \<Rightarrow> string list" where
  "worker_pool st = (if idle st \<noteq> {} then sorted_list_of_set (idle st) else workers st)"

definition is_rootish :: "scheduler_state \<Rightarrow> task_group \<Rightarrow> bool" where
  "is_rootish st tg \<longleftrightarrow>
     tg_len tg > total_nthreads st * 2
     \<and> length (tg_dependencies tg) < 5
     \<and> sum_list (map (\<lambda>g. tg_len (group_obj st g)) (tg_dependencies tg)) < 5"

definition pick_new_worker ::
  "scheduler_state \<Rightarrow> string \<Rightarrow> task_group \<Rightarrow> py_error + (string \<times> task_group)" where
  "pick_new_worker st k tg =
     bind_err (py_min (worker_objective st k) (worker_pool st)) (\<lambda>a.
       if total_nthreads st = 0 then Inl ZeroDivisionError
       else Inr (a, tg\<lparr>tg_last_worker_tasks_left :=
                   \<lfloor>of_int (tg_len tg) / of_int (total_nthreads st)
                      * of_int (ws_nthreads (worker_obj st a)) :: rat\<rfloor>\<rparr>))"

definition decide_rootish ::
  "scheduler_state \<Rightarrow> string \<Rightarrow> py_error + (string option \<times> scheduler_state)" where
  "decide_rootish st k =
     (let g = ts_group (task_obj st k);
          tg = group_obj st g
      in bind_err
           (case tg_last_worker tg of
              None \<Rightarrow> pick_new_worker st k tg
            | Some a \<Rightarrow>
                if tg_last_worker_tasks_left tg \<noteq> 0 \<and> a \<in> set (workers st)
                then Inr (a, tg)
                else pick_new_worker st k tg)
           (\<lambda>(a, tg1).
              let tg2 = tg1\<lparr>tg_last_worker :=
                          (if tg_states tg1 Released + tg_states tg1 Waiting > 1
                           then Some a else None)\<rparr>;
                  tg3 = tg2\<lparr>tg_last_worker_tasks_left := tg_last_worker_tasks_left tg2 - 1\<rparr>
              in Inr (Some a, st\<lparr>group_obj := (group_obj st)(g := tg3)\<rparr>)))"

definition decide_fastpath :: "scheduler_state \<Rightarrow> py_error + string option" where
  "decide_fastpath st =
     (let pool = worker_pool st;
          n_workers = length pool
      in if n_workers < 20
         then bind_err (py_min (\<lambda>a. Inr (ws_occupancy (worker_obj st a))) pool) (\<lambda>a.
                if ws_occupancy (worker_obj st a) = 0
                then
                  let start = nat (n_tasks st mod int n_workers);
                      order = map (\<lambda>i. pool ! ((i + start) mod n_workers)) [0..<n_workers]
                  in (case find (\<lambda>b. ws_occupancy (worker_obj st b) = 0) order of
                        Some b \<Rightarrow> Inr (Some b)
                      | None \<Rightarrow> Inr (Some a))
                else Inr (Some a))
         else Inr (Some (pool ! nat (n_tasks st mod int n_workers))))"

definition decide_worker ::
  "scheduler_state \<Rightarrow> string \<Rightarrow> py_error + (string option \<times> scheduler_state)" where
  "decide_worker st k =
     (if workers st = [] then Inr (None, st)
      else
        bind_err (valid_workers st k) (\<lambda>(valid, st1).
          let ts = task_obj st1 k
          in if valid = Some {} \<and> \<not> ts_loose_restrictions ts
             then Inr (None, set_state (st1\<lparr>unrunnable := insert k (unrunnable st1)\<rparr>) k No_worker)
             else if valid = None \<and> is_rootish st1 (group_obj st1 (ts_group ts))
             then decide_rootish st1 k
             else if ts_dependencies ts \<noteq> [] \<or> valid \<noteq> None
             then bind_err (decide_worker_fn st1 k (workers st1) valid) (\<lambda>r. Inr (r, st1))
             else bind_err (decide_fastpath st1) (\<lambda>r. Inr (r, st1))))"

section \<open>Memory rebalance\<close>

text \<open>
  \<^verbatim>\<open>MemoryState\<close>: the constructor forces the readings to add up, and the measures are
  properties of the object. \<^verbatim>\<open>WorkerState.memory\<close> builds it from the last heartbeat.
\<close>

record memory_state =
  ms_process :: int
  ms_managed_in_memory :: int
  ms_managed_spilled :: int
  ms_unmanaged_old :: int

definition new_memory_state :: "int \<Rightarrow> int \<Rightarrow> int \<Rightarrow> int \<Rightarrow> memory_state" where
  "new_memory_state process unmanaged_old managed_in_memory managed_spilled =
     \<lparr>ms_process = process,
      ms_managed_in_memory = min process managed_in_memory,
      ms_managed_spilled = managed_spilled,
      ms_unmanaged_old = min unmanaged_old (process - min process managed_in_memory)\<rparr>"

definition ws_memory :: "worker_state \<Rightarrow> memory_state" where
  "ws_memory ws =
     new_memory_state
       (case ws_metrics_memory ws of None \<Rightarrow> 0 | Some m \<Rightarrow> m)
       (ws_memory_unmanaged_old ws)
       (max 0 (ws_nbytes ws - ws_metrics_spilled_memory ws))
       (ws_metrics_spilled_disk ws)"

fun get_measure :: "memory_state \<Rightarrow> measure_name \<Rightarrow> int" where
  "get_measure ms Process = ms_process ms"
| "get_measure ms Optimistic = ms_managed_in_memory ms + ms_unmanaged_old ms"
| "get_measure ms Managed = ms_managed_in_memory ms + ms_managed_spilled ms"
| "get_measure ms Managed_in_memory = ms_managed_in_memory ms"
| "get_measure ms Managed_spilled = ms_managed_spilled ms"
| "get_measure ms Unmanaged = ms_process ms - ms_managed_in_memory ms"
| "get_measure ms Unmanaged_old = ms_unmanaged_old ms"
| "get_measure ms Unmanaged_recent =
     ms_process ms - ms_managed_in_memory ms - ms_unmanaged_old ms"

text \<open>
  The two heaps of \<^verbatim>\<open>_rebalance_find_msgs\<close>. An element is a tuple that starts with
  \<^verbatim>\<open>(bytes_max, bytes_min, id(ws))\<close>; the \<^verbatim>\<open>id\<close> makes the triples of any two
  workers differ, so the order of the elements is the lexicographic order of the triples.
  Only the least element of a heap is ever read, so a heap is kept as the list of its
  elements in ascending order: \<^verbatim>\<open>heap[0]\<close> is the head, \<^verbatim>\<open>heappop\<close> drops it,
  \<^verbatim>\<open>heappush\<close> inserts in order and \<^verbatim>\<open>heapreplace\<close> drops the head and then
  inserts. A sender carries the iterator over its \<^verbatim>\<open>has_what\<close>, here the list of the
  keys that are still to come.
\<close>

type_synonym heap_key = "int \<times> int \<times> nat"
type_synonym sender = "heap_key \<times> string \<times> string list"
type_synonym recipient = "heap_key \<times> string"

definition heapify :: "(heap_key \<times> 'a) list \<Rightarrow> (heap_key \<times> 'a) list" where
  "heapify xs = sort_key fst xs"

definition heappush :: "(heap_key \<times> 'a) list \<Rightarrow> heap_key \<times> 'a \<Rightarrow> (heap_key \<times> 'a) list" where
  "heappush h x = insort_key fst x h"

definition heappop :: "(heap_key \<times> 'a) list \<Rightarrow> (heap_key \<times> 'a) list" where
  "heappop h = tl h"

definition heapreplace :: "(heap_key \<times> 'a) list \<Rightarrow> heap_key \<times> 'a \<Rightarrow> (heap_key \<times> 'a) list" where
  "heapreplace h x = insort_key fst x (tl h)"

text \<open>Python's \<^verbatim>\<open>int(x)\<close> on a float: truncation towards zero.\<close>

definition py_int :: "rat \<Rightarrow> int" where
  "py_int x = (if x \<ge> 0 then \<lfloor>x\<rfloor> else \<lceil>x\<rceil>)"

text \<open>
  The first loop: every worker is classified as a sender, a recipient or neither.
  \<open>wid\<close> stands for Python's \<^verbatim>\<open>id\<close>. With no memory limit the recipient
  threshold is \<^verbatim>\<open>math.inf\<close>, so the second comparison holds.
\<close>

definition classify ::
  "scheduler_state \<Rightarrow> (string \<Rightarrow> nat) \<Rightarrow> int \<Rightarrow> string \<times> int
     \<Rightarrow> sender list \<times> recipient list \<Rightarrow> sender list \<times> recipient list" where
  "classify st wid mean_memory wm acc =
     (let a = fst wm;
          ws_mem = snd wm;
          ws = worker_obj st a;
          limited = (ws_memory_limit ws \<noteq> 0);
          half_gap = (if limited
                      then py_int (memory_rebalance_half_gap st * of_int (ws_memory_limit ws))
                      else 0);
          sender_min = (if limited
                        then memory_rebalance_sender_min st * of_int (ws_memory_limit ws)
                        else 0);
          below_recipient_max =
            (if limited
             then of_int ws_mem < memory_rebalance_recipient_max st * of_int (ws_memory_limit ws)
             else True)
      in if ws_has_what ws \<noteq> [] \<and> ws_mem \<ge> mean_memory + half_gap
            \<and> of_int ws_mem \<ge> sender_min
         then (fst acc @ [((mean_memory - ws_mem, mean_memory - ws_mem + half_gap, wid a),
                           a, ws_has_what ws)], snd acc)
         else if ws_mem < mean_memory - half_gap \<and> below_recipient_max
         then (fst acc, snd acc @ [((ws_mem - mean_memory, ws_mem - mean_memory + half_gap, wid a), a)])
         else acc)"

text \<open>
  The inner \<^verbatim>\<open>while\<close> loop: recipients that already hold the task are popped and
  set aside until one is found that does not, or the least recipient has too little room.
  The result is the recipient found, the heap that is left (the recipient found still at
  its head) and the recipients set aside; popping the head \<open>r\<close> of \<open>r # rs\<close>
  leaves \<open>rs\<close>.
\<close>

fun find_recipient ::
  "scheduler_state \<Rightarrow> string \<Rightarrow> int \<Rightarrow> recipient list \<Rightarrow> recipient list
     \<Rightarrow> recipient option \<times> recipient list \<times> recipient list" where
  "find_recipient st t nb [] skipped = (None, [], skipped)"
| "find_recipient st t nb (r # rs) skipped =
     (if nb + fst (fst r) > 0 then (None, r # rs, skipped)
      else if t \<notin> set (ws_has_what (worker_obj st (snd r))) then (Some r, r # rs, skipped)
      else find_recipient st t nb rs (skipped @ [r]))"

text \<open>
  The \<^verbatim>\<open>for ts in ts_iter\<close> loop over the tasks of the sender at the head of the heap,
  up to the first task that is scheduled for transfer. \<open>Found\<close> carries the task, its
  size, the recipient tuple that was read, the rest of the iterator and the recipient heap
  after the recipients set aside were pushed back; \<open>Exhausted\<close> is the \<^verbatim>\<open>else\<close>
  branch of the loop, with the recipient heap as the last task left it.
\<close>

datatype scan_result =
  Found string int recipient "string list" "recipient list"
  | Exhausted "recipient list"

fun scan_tasks ::
  "scheduler_state \<Rightarrow> string set option \<Rightarrow> int \<Rightarrow> recipient list \<Rightarrow> string list
     \<Rightarrow> scan_result" where
  "scan_tasks st keys snd_bytes_max recipients [] = Exhausted recipients"
| "scan_tasks st keys snd_bytes_max recipients (t # ts) =
     (if (case keys of None \<Rightarrow> False | Some ks \<Rightarrow> t \<notin> ks)
      then scan_tasks st keys snd_bytes_max recipients ts
      else
        let nb = ts_nbytes (task_obj st t)
        in if nb + snd_bytes_max > 0
           then scan_tasks st keys snd_bytes_max recipients ts
           else
             (case find_recipient st t nb recipients [] of
                (found, rest, skipped) \<Rightarrow>
                  let recipients' = foldl heappush rest skipped
                  in (case found of
                        None \<Rightarrow> scan_tasks st keys snd_bytes_max recipients' ts
                      | Some r \<Rightarrow> Found t nb r ts recipients')))"

text \<open>
  One round of the outer \<^verbatim>\<open>while senders and recipients\<close> loop, and the loop itself.
  Every round shortens the iterator of the sender at the head or removes that sender.
\<close>

definition iter_len :: "sender list \<Rightarrow> nat" where
  "iter_len senders = sum_list (map (\<lambda>s. Suc (length (snd (snd s)))) senders)"

definition rebalance_round ::
  "scheduler_state \<Rightarrow> string set option \<Rightarrow> sender list \<Rightarrow> recipient list
     \<Rightarrow> (string \<times> string \<times> string) list
     \<Rightarrow> sender list \<times> recipient list \<times> (string \<times> string \<times> string) list" where
  "rebalance_round st keys senders recipients msgs =
     (case hd senders of
        ((snd_bytes_max, snd_bytes_min, i), snd_ws, ts_iter) \<Rightarrow>
          (case scan_tasks st keys snd_bytes_max recipients ts_iter of
             Exhausted recipients' \<Rightarrow> (heappop senders, recipients', msgs)
           | Found t nb r rest recipients' \<Rightarrow>
               (case r of
                  ((rec_bytes_max, rec_bytes_min, j), rec_ws) \<Rightarrow>
                    let senders' =
                          (if snd_bytes_min + nb < 0
                           then heapreplace senders
                                  ((snd_bytes_max + nb, snd_bytes_min + nb, i), snd_ws, rest)
                           else heappop senders);
                        recipients'' =
                          (if rec_bytes_min + nb < 0
                           then heapreplace recipients'
                                  ((rec_bytes_max + nb, rec_bytes_min + nb, j), rec_ws)
                           else heappop recipients')
                    in (senders', recipients'', msgs @ [(snd_ws, rec_ws, t)]))))"

text \<open>The facts that make the loop terminate.\<close>

lemma scan_tasks_Found_shorter:
  "scan_tasks st keys m recipients ts = Found t nb r rest recipients' \<Longrightarrow>
     length rest < length ts"
proof (induction ts arbitrary: recipients)
  case Nil
  then show ?case by simp
next
  case (Cons x xs)
  then show ?case
    by (fastforce simp: Let_def split: if_splits prod.splits option.splits)
qed

lemma iter_len_insort:
  "iter_len (insort_key f x xs) = Suc (length (snd (snd x))) + iter_len xs"
  by (induction xs) (auto simp: iter_len_def)

lemma iter_len_tl: "xs \<noteq> [] \<Longrightarrow> iter_len (tl xs) < iter_len xs"
  by (cases xs) (auto simp: iter_len_def)

lemma iter_len_hd:
  "xs \<noteq> [] \<Longrightarrow> iter_len xs = Suc (length (snd (snd (hd xs)))) + iter_len (tl xs)"
  by (cases xs) (auto simp: iter_len_def)

lemma rebalance_round_decreases:
  assumes "senders \<noteq> []"
    and "rebalance_round st keys senders recipients msgs = (senders', recipients', msgs')"
  shows "iter_len senders' < iter_len senders"
proof -
  obtain a b i w it where h: "hd senders = ((a, b, i), w, it)"
    by (cases "hd senders") auto
  show ?thesis
  proof (cases "scan_tasks st keys a recipients it")
    case (Exhausted rs)
    then have "senders' = tl senders"
      using assms(2) h by (simp add: rebalance_round_def heappop_def)
    then show ?thesis using iter_len_tl [OF assms(1)] by simp
  next
    case (Found t nb r rest rs)
    then have short: "length rest < length it" by (rule scan_tasks_Found_shorter)
    obtain c d j rw where r: "r = ((c, d, j), rw)" by (cases r) auto
    have "senders' = (if b + nb < 0 then heapreplace senders ((a + nb, b + nb, i), w, rest)
                      else heappop senders)"
      using assms(2) h Found r by (simp add: rebalance_round_def Let_def)
    then show ?thesis
      using short iter_len_hd [OF assms(1)] h iter_len_tl [OF assms(1)]
      by (auto simp: heapreplace_def heappop_def iter_len_insort)
  qed
qed

function rebalance_loop ::
  "scheduler_state \<Rightarrow> string set option \<Rightarrow> sender list \<Rightarrow> recipient list
     \<Rightarrow> (string \<times> string \<times> string) list \<Rightarrow> (string \<times> string \<times> string) list" where
  "rebalance_loop st keys senders recipients msgs =
     (if senders = [] \<or> recipients = [] then msgs
      else (case rebalance_round st keys senders recipients msgs of
              (senders', recipients', msgs') \<Rightarrow>
                rebalance_loop st keys senders' recipients' msgs'))"
  by pat_completeness auto
termination
  apply (relation "measure (\<lambda>(st, keys, senders, recipients, msgs). iter_len senders)")
   apply simp
  apply (auto dest: sym simp: rebalance_round_decreases)
  done

text \<open>
  \<^verbatim>\<open>Scheduler._rebalance_find_msgs(keys, workers)\<close>: the workers are given by their
  addresses, in iteration order. The mean is an integer division by the number of workers,
  which raises when there is none.
\<close>

definition rebalance_find_msgs ::
  "scheduler_state \<Rightarrow> (string \<Rightarrow> nat) \<Rightarrow> string set option \<Rightarrow> string list
     \<Rightarrow> py_error + (string \<times> string \<times> string) list" where
  "rebalance_find_msgs st wid keys wss =
     (let memory_by_worker =
            map (\<lambda>a. (a, get_measure (ws_memory (worker_obj st a)) (memory_rebalance_measure st)))
              wss
      in if memory_by_worker = [] then Inl ZeroDivisionError
         else
           let mean_memory = sum_list (map snd memory_by_worker) div int (length memory_by_worker);
               sr = foldl (\<lambda>acc wm. classify st wid mean_memory wm acc) ([], []) memory_by_worker
           in if fst sr = [] \<or> snd sr = [] then Inr []
              else Inr (rebalance_loop st keys (heapify (fst sr)) (heapify (snd sr)) []))"

section \<open>The transition engine\<close>

subsection \<open>Messages, recommendations and single updates\<close>

text \<open>
  The messages that the transition handlers queue for workers and clients, without their
  \<^verbatim>\<open>stimulus_id\<close> (it carries the time of day). \<^verbatim>\<open>recommendations\<close>,
  \<^verbatim>\<open>client_msgs\<close> and \<^verbatim>\<open>worker_msgs\<close> are dicts; the handlers only assign to
  their keys, so they are maps.
\<close>

datatype msg =
  Free_keys "string list"
  | Cancel_compute string
  | Compute_task string
  | Key_in_memory string "string option"
  | Lost_data string
  | Task_erred string "string option" "string option"
  | Task_retried string
  | Cancelled_key string

type_synonym recs = "string \<rightharpoonup> task_status"
type_synonym msgs = "string \<rightharpoonup> msg list"

definition upd_task ::
  "scheduler_state \<Rightarrow> string \<Rightarrow> (task_state \<Rightarrow> task_state) \<Rightarrow> scheduler_state" where
  "upd_task st k f = st\<lparr>task_obj := (task_obj st)(k := f (task_obj st k))\<rparr>"

definition upd_worker ::
  "scheduler_state \<Rightarrow> string \<Rightarrow> (worker_state \<Rightarrow> worker_state) \<Rightarrow> scheduler_state" where
  "upd_worker st a f = st\<lparr>worker_obj := (worker_obj st)(a := f (worker_obj st a))\<rparr>"

text \<open>A loop that applies the same update to every task of a set.\<close>

definition upd_tasks ::
  "scheduler_state \<Rightarrow> string set \<Rightarrow> (task_state \<Rightarrow> task_state) \<Rightarrow> scheduler_state" where
  "upd_tasks st ks f =
     st\<lparr>task_obj := (\<lambda>d. if d \<in> ks then f (task_obj st d) else task_obj st d)\<rparr>"

text \<open>A loop that recommends the same state for every key of a set.\<close>

definition recommend :: "recs \<Rightarrow> string set \<Rightarrow> task_status \<Rightarrow> recs" where
  "recommend r ks v = (\<lambda>d. if d \<in> ks then Some v else r d)"

text \<open>A loop that queues the same single message for every peer of a set.\<close>

definition send_to :: "msgs \<Rightarrow> string set \<Rightarrow> msg \<Rightarrow> msgs" where
  "send_to m peers x = (\<lambda>p. if p \<in> peers then Some [x] else m p)"

subsection \<open>Replicas\<close>

text \<open>
  \<^verbatim>\<open>add_replica\<close>, \<^verbatim>\<open>remove_replica\<close> and \<^verbatim>\<open>remove_all_replicas\<close> (the
  assertions of \<^verbatim>\<open>add_replica\<close> are made only when \<^verbatim>\<open>validate\<close> is set, which is
  not the case in production and not modelled). \<^verbatim>\<open>del\<close> on a dict and
  \<^verbatim>\<open>remove\<close> on a set raise \<^verbatim>\<open>KeyError\<close> when the element is missing.
\<close>

definition add_replica :: "scheduler_state \<Rightarrow> string \<Rightarrow> string \<Rightarrow> scheduler_state" where
  "add_replica st k a =
     (let st1 = upd_worker st a (\<lambda>ws. ws
                  \<lparr>ws_nbytes := ws_nbytes ws + get_nbytes st (task_obj st k),
                   ws_has_what := (if k \<in> set (ws_has_what ws) then ws_has_what ws
                                   else ws_has_what ws @ [k])\<rparr>);
          st2 = upd_task st1 k (\<lambda>ts. ts\<lparr>ts_who_has := insert a (ts_who_has ts)\<rparr>)
      in if card (ts_who_has (task_obj st2 k)) = 2
         then st2\<lparr>replicated_tasks := insert k (replicated_tasks st2)\<rparr>
         else st2)"

definition remove_replica ::
  "scheduler_state \<Rightarrow> string \<Rightarrow> string \<Rightarrow> py_error + scheduler_state" where
  "remove_replica st k a =
     (if k \<notin> set (ws_has_what (worker_obj st a)) then Inl KeyError
      else if a \<notin> ts_who_has (task_obj st k) then Inl KeyError
      else
        let st1 = upd_worker st a (\<lambda>ws. ws
                    \<lparr>ws_nbytes := ws_nbytes ws - get_nbytes st (task_obj st k),
                     ws_has_what := removeAll k (ws_has_what ws)\<rparr>);
            st2 = upd_task st1 k (\<lambda>ts. ts\<lparr>ts_who_has := ts_who_has ts - {a}\<rparr>)
        in if card (ts_who_has (task_obj st2 k)) = 1
           then (if k \<in> replicated_tasks st2
                 then Inr (st2\<lparr>replicated_tasks := replicated_tasks st2 - {k}\<rparr>)
                 else Inl KeyError)
           else Inr st2)"

definition remove_all_replicas :: "scheduler_state \<Rightarrow> string \<Rightarrow> py_error + scheduler_state" where
  "remove_all_replicas st k =
     (let holders = ts_who_has (task_obj st k);
          nb = get_nbytes st (task_obj st k)
      in if \<exists>a\<in>holders. k \<notin> set (ws_has_what (worker_obj st a)) then Inl KeyError
         else
           let st1 = st\<lparr>worker_obj := (\<lambda>a. if a \<in> holders
                          then (worker_obj st a)
                                 \<lparr>ws_nbytes := ws_nbytes (worker_obj st a) - nb,
                                  ws_has_what := removeAll k (ws_has_what (worker_obj st a))\<rparr>
                          else worker_obj st a)\<rparr>
           in if card holders > 1 \<and> k \<notin> replicated_tasks st1 then Inl KeyError
              else
                let st2 = (if card holders > 1
                           then st1\<lparr>replicated_tasks := replicated_tasks st1 - {k}\<rparr>
                           else st1)
                in Inr (upd_task st2 k (\<lambda>ts. ts\<lparr>ts_who_has := {}\<rparr>)))"

text \<open>
  \<^verbatim>\<open>TaskState.set_nbytes\<close>; the byte total of the group is a statistic that is left
  out.
\<close>

definition set_nbytes :: "scheduler_state \<Rightarrow> string \<Rightarrow> int \<Rightarrow> scheduler_state" where
  "set_nbytes st k nbytes =
     (let old = ts_nbytes (task_obj st k);
          diff = (if old \<ge> 0 then nbytes - old else nbytes);
          holders = ts_who_has (task_obj st k);
          st1 = st\<lparr>worker_obj := (\<lambda>a. if a \<in> holders
                         then (worker_obj st a)\<lparr>ws_nbytes := ws_nbytes (worker_obj st a) + diff\<rparr>
                         else worker_obj st a)\<rparr>
      in upd_task st1 k (\<lambda>ts. ts\<lparr>ts_nbytes := nbytes\<rparr>))"

subsection \<open>Occupancy and resources\<close>

text \<open>
  \<^verbatim>\<open>get_task_duration\<close>, \<^verbatim>\<open>get_comm_cost\<close>, \<^verbatim>\<open>set_duration_estimate\<close>,
  \<^verbatim>\<open>consume_resources\<close> and \<^verbatim>\<open>release_resources\<close>. A dict of a worker
  (\<^verbatim>\<open>processing\<close>) is a list of pairs in insertion order, and a set in
  \<^verbatim>\<open>unknown_durations\<close> the list of its elements in iteration order.
\<close>

definition dict_set :: "('k \<times> 'v) list \<Rightarrow> 'k \<Rightarrow> 'v \<Rightarrow> ('k \<times> 'v) list" where
  "dict_set d k v =
     (if k \<in> fst ` set d then map (\<lambda>(k', v'). if k' = k then (k', v) else (k', v')) d
      else d @ [(k, v)])"

definition dict_del :: "('k \<times> 'v) list \<Rightarrow> 'k \<Rightarrow> ('k \<times> 'v) list" where
  "dict_del d k = filter (\<lambda>(k', v'). k' \<noteq> k) d"

definition get_task_duration :: "scheduler_state \<Rightarrow> string \<Rightarrow> rat \<times> scheduler_state" where
  "get_task_duration st k =
     (let p = ts_prefix (task_obj st k);
          duration = prefix_duration_average st p
      in if duration \<ge> 0 then (duration, st)
         else
           let s = (case unknown_durations st p of None \<Rightarrow> [] | Some s0 \<Rightarrow> s0)
           in (unknown_task_duration st,
               st\<lparr>unknown_durations := (unknown_durations st)
                    (p \<mapsto> (if k \<in> set s then s else s @ [k]))\<rparr>))"

definition get_comm_cost :: "scheduler_state \<Rightarrow> string \<Rightarrow> string \<Rightarrow> py_error + rat" where
  "get_comm_cost st k a =
     (let deps = filter (\<lambda>d. d \<notin> set (ws_has_what (worker_obj st a)))
                   (ts_dependencies (task_obj st k));
          nbytes = sum_list (map (\<lambda>d. ts_nbytes (task_obj st d)) deps)
      in if bandwidth st = 0 then Inl ZeroDivisionError
         else Inr (of_int nbytes / bandwidth st))"

definition set_duration_estimate ::
  "scheduler_state \<Rightarrow> string \<Rightarrow> string \<Rightarrow> py_error + (rat \<times> scheduler_state)" where
  "set_duration_estimate st k a =
     (let exec_time = (case ws_executing (worker_obj st a) k of None \<Rightarrow> 0 | Some e \<Rightarrow> e)
      in case get_task_duration st k of
           (duration, st1) \<Rightarrow>
             bind_err (if exec_time > 2 * duration then Inr (2 * exec_time)
                       else bind_err (get_comm_cost st1 k a) (\<lambda>comm. Inr (duration + comm)))
               (\<lambda>total_duration.
                  let ws = worker_obj st1 a;
                      old = (case map_of (ws_processing ws) k of None \<Rightarrow> 0 | Some c \<Rightarrow> c);
                      st2 = upd_worker st1 a (\<lambda>ws. ws
                              \<lparr>ws_processing := dict_set (ws_processing ws) k total_duration\<rparr>)
                  in if k \<notin> ws_long_running ws
                     then Inr (total_duration,
                            upd_worker (st2\<lparr>total_occupancy :=
                                          total_occupancy st2 + (total_duration - old)\<rparr>) a
                              (\<lambda>ws. ws\<lparr>ws_occupancy := ws_occupancy ws + (total_duration - old)\<rparr>))
                     else Inr (total_duration, st2)))"

definition adjust_resources ::
  "(rat \<Rightarrow> rat \<Rightarrow> rat) \<Rightarrow> scheduler_state \<Rightarrow> string \<Rightarrow> string \<Rightarrow> py_error + scheduler_state" where
  "adjust_resources op st k a =
     (case ts_resource_restrictions (task_obj st k) of
        None \<Rightarrow> Inr st
      | Some rr \<Rightarrow>
          foldl (\<lambda>acc (r, required).
                   bind_err acc (\<lambda>s.
                     case ws_used_resources (worker_obj s a) r of
                       None \<Rightarrow> Inl KeyError
                     | Some used \<Rightarrow>
                         Inr (upd_worker s a (\<lambda>ws. ws
                                \<lparr>ws_used_resources := (ws_used_resources ws)(r \<mapsto> op used required)\<rparr>))))
            (Inr st) rr)"

definition consume_resources ::
  "scheduler_state \<Rightarrow> string \<Rightarrow> string \<Rightarrow> py_error + scheduler_state" where
  "consume_resources = adjust_resources (\<lambda>used required. used + required)"

definition release_resources ::
  "scheduler_state \<Rightarrow> string \<Rightarrow> string \<Rightarrow> py_error + scheduler_state" where
  "release_resources = adjust_resources (\<lambda>used required. used - required)"

text \<open>
  \<^verbatim>\<open>_remove_from_processing\<close>: the result is the address of the worker, or \<open>None\<close>
  when that worker is no longer connected. Reading \<^verbatim>\<open>ws._address\<close> of a task that is
  processing nowhere raises \<^verbatim>\<open>AttributeError\<close>.
\<close>

definition remove_from_processing ::
  "scheduler_state \<Rightarrow> string \<Rightarrow> py_error + (string option \<times> scheduler_state)" where
  "remove_from_processing st k =
     (case ts_processing_on (task_obj st k) of
        None \<Rightarrow> Inl AttributeError
      | Some w \<Rightarrow>
          let st1 = upd_task st k (\<lambda>ts. ts\<lparr>ts_processing_on := None\<rparr>)
          in if w \<notin> set (workers st1) then Inr (None, st1)
             else
               (case map_of (ws_processing (worker_obj st1 w)) k of
                  None \<Rightarrow> Inl KeyError
                | Some duration \<Rightarrow>
                    let processing' = dict_del (ws_processing (worker_obj st1 w)) k;
                        occ = ws_occupancy (worker_obj st1 w);
                        st2 = (if processing' = []
                               then upd_worker (st1\<lparr>total_occupancy := total_occupancy st1 - occ\<rparr>) w
                                      (\<lambda>ws. ws\<lparr>ws_processing := processing', ws_occupancy := 0\<rparr>)
                               else upd_worker (st1\<lparr>total_occupancy := total_occupancy st1 - duration\<rparr>) w
                                      (\<lambda>ws. ws\<lparr>ws_processing := processing',
                                                ws_occupancy := occ - duration\<rparr>))
                    in bind_err (check_idle_saturated st2 w (- 1)) (\<lambda>st3.
                         bind_err (release_resources st3 k w) (\<lambda>st4. Inr (Some w, st4)))))"

subsection \<open>Helpers of the transition handlers\<close>

text \<open>
  \<^verbatim>\<open>_client_releases_keys\<close>, \<^verbatim>\<open>_add_to_memory\<close>, \<^verbatim>\<open>_propagate_forgotten\<close>,
  \<^verbatim>\<open>_task_to_report_msg\<close>, \<^verbatim>\<open>_task_to_client_msgs\<close> and \<^verbatim>\<open>remove_key\<close>.
  Each loop of the source updates the objects it visits independently of one another, so
  it is one simultaneous update.
\<close>

definition client_releases_key ::
  "string \<Rightarrow> recs \<times> scheduler_state \<Rightarrow> string \<Rightarrow> py_error + (recs \<times> scheduler_state)" where
  "client_releases_key cs rs k =
     (let r = fst rs; st = snd rs
      in if k \<in> tasks st \<and> k \<in> wants_what st cs
         then
           if cs \<notin> ts_who_wants (task_obj st k) then Inl KeyError
           else
             let st1 = st\<lparr>wants_what := (wants_what st)(cs := wants_what st cs - {k})\<rparr>;
                 st2 = upd_task st1 k (\<lambda>ts. ts\<lparr>ts_who_wants := ts_who_wants ts - {cs}\<rparr>);
                 ts = task_obj st2 k
             in if ts_who_wants ts = {}
                then (if ts_dependents ts = {} then Inr (r(k \<mapsto> Forgotten), st2)
                      else if ts_state ts \<noteq> Erred \<and> ts_waiters ts = {}
                      then Inr (r(k \<mapsto> Released), st2)
                      else Inr (r, st2))
                else Inr (r, st2)
         else Inr (r, st))"

definition client_releases_keys ::
  "scheduler_state \<Rightarrow> string list \<Rightarrow> string \<Rightarrow> recs \<Rightarrow> py_error + (recs \<times> scheduler_state)" where
  "client_releases_keys st ks cs r =
     foldl (\<lambda>acc k. bind_err acc (\<lambda>rs. client_releases_key cs rs k)) (Inr (r, st)) ks"

definition release_fire_and_forget ::
  "scheduler_state \<Rightarrow> string \<Rightarrow> recs \<Rightarrow> py_error + (recs \<times> scheduler_state)" where
  "release_fire_and_forget st k r =
     (if ''fire-and-forget'' \<notin> clients st then Inl KeyError
      else if k \<in> wants_what st ''fire-and-forget''
      then client_releases_keys st [k] ''fire-and-forget'' r
      else Inr (r, st))"

definition add_to_memory ::
  "scheduler_state \<Rightarrow> string \<Rightarrow> string \<Rightarrow> recs \<Rightarrow> msgs \<Rightarrow> string option \<Rightarrow> string option
     \<Rightarrow> py_error + (recs \<times> msgs \<times> scheduler_state)" where
  "add_to_memory st k a r cm typ typename =
     (let st1 = add_replica st k a;
          waiting = {d \<in> ts_dependents (task_obj st1 k). k \<in> ts_waiting_on (task_obj st1 d)};
          st2 = upd_tasks st1 waiting (\<lambda>dts. dts\<lparr>ts_waiting_on := ts_waiting_on dts - {k}\<rparr>);
          r1 = recommend r {d \<in> waiting. ts_waiting_on (task_obj st2 d) = {}} Processing;
          deps = set (ts_dependencies (task_obj st2 k));
          st3 = upd_tasks st2 deps (\<lambda>dts. dts\<lparr>ts_waiters := ts_waiters dts - {k}\<rparr>);
          r2 = recommend r1 {d \<in> deps. ts_waiters (task_obj st3 d) = {}
                                    \<and> ts_who_wants (task_obj st3 d) = {}} Released;
          ts = task_obj st3 k;
          unneeded = (ts_waiters ts = {} \<and> ts_who_wants ts = {});
          r3 = (if unneeded then r2(k \<mapsto> Released) else r2);
          cm1 = (if unneeded then cm else send_to cm (ts_who_wants ts) (Key_in_memory k typ));
          st4 = upd_task (set_state st3 k Memory) k (\<lambda>ts. ts\<lparr>ts_type := typename\<rparr>);
          g = ts_group (task_obj st4 k);
          st5 = st4\<lparr>group_obj := (group_obj st4)
                  (g := (group_obj st4 g)\<lparr>tg_types := insert typename (tg_types (group_obj st4 g))\<rparr>)\<rparr>
      in bind_err (release_fire_and_forget st5 k r3) (\<lambda>(r4, st6). Inr (r4, cm1, st6)))"

definition propagate_forgotten ::
  "scheduler_state \<Rightarrow> string \<Rightarrow> recs \<Rightarrow> msgs \<Rightarrow> py_error + (recs \<times> msgs \<times> scheduler_state)" where
  "propagate_forgotten st k r wm =
     (let st1 = set_state st k Forgotten;
          dependents = ts_dependents (task_obj st1 k)
      in if \<exists>d\<in>dependents. k \<notin> set (ts_dependencies (task_obj st1 d)) then Inl KeyError
         else
           let st2 = upd_tasks st1 dependents (\<lambda>dts. dts
                       \<lparr>ts_has_lost_dependencies := True,
                        ts_dependencies := removeAll k (ts_dependencies dts),
                        ts_waiting_on := ts_waiting_on dts - {k}\<rparr>);
               r1 = recommend r {d \<in> dependents. ts_state (task_obj st2 d) \<noteq> Memory
                                        \<and> ts_state (task_obj st2 d) \<noteq> Erred} Forgotten;
               st3 = upd_task st2 k (\<lambda>ts. ts\<lparr>ts_dependents := {}, ts_waiters := {}\<rparr>);
               deps = set (ts_dependencies (task_obj st3 k))
           in if \<exists>d\<in>deps. k \<notin> ts_dependents (task_obj st3 d) then Inl KeyError
              else
                let st4 = upd_tasks st3 deps (\<lambda>dts. dts
                            \<lparr>ts_dependents := ts_dependents dts - {k},
                             ts_waiters := ts_waiters dts - {k}\<rparr>);
                    r2 = recommend r1 {d \<in> deps. ts_dependents (task_obj st4 d) = {}
                                           \<and> ts_who_wants (task_obj st4 d) = {}} Forgotten;
                    st5 = upd_task st4 k (\<lambda>ts. ts\<lparr>ts_dependencies := [], ts_waiting_on := {}\<rparr>);
                    wm1 = send_to wm {w \<in> ts_who_has (task_obj st5 k). w \<in> set (workers st5)}
                            (Free_keys [k])
                in bind_err (remove_all_replicas st5 k) (\<lambda>st6. Inr (r2, wm1, st6)))"

definition task_to_report_msg :: "scheduler_state \<Rightarrow> string \<Rightarrow> py_error + msg option" where
  "task_to_report_msg st k =
     (let ts = task_obj st k
      in if ts_state ts = Forgotten then Inr (Some (Cancelled_key k))
         else if ts_state ts = Memory then Inr (Some (Key_in_memory k None))
         else if ts_state ts = Erred
         then (case ts_exception_blame ts of
                 None \<Rightarrow> Inl AttributeError
               | Some f \<Rightarrow> Inr (Some (Task_erred k (ts_exception (task_obj st f))
                                       (ts_traceback (task_obj st f)))))
         else Inr None)"

definition task_to_client_msgs :: "scheduler_state \<Rightarrow> string \<Rightarrow> py_error + msgs" where
  "task_to_client_msgs st k =
     (if ts_who_wants (task_obj st k) \<noteq> {}
      then bind_err (task_to_report_msg st k) (\<lambda>report.
             case report of
               None \<Rightarrow> Inr Map.empty
             | Some m \<Rightarrow> Inr (send_to Map.empty (ts_who_wants (task_obj st k)) m))
      else Inr Map.empty)"

definition remove_key :: "scheduler_state \<Rightarrow> string \<Rightarrow> py_error + scheduler_state" where
  "remove_key st k =
     (if k \<notin> tasks st then Inl KeyError
      else if ts_state (task_obj st k) \<noteq> Forgotten then Inl AssertionError
      else
        let st1 = st\<lparr>tasks := tasks st - {k}, unrunnable := unrunnable st - {k}\<rparr>;
            wanters = ts_who_wants (task_obj st1 k)
        in if \<exists>cs\<in>wanters. k \<notin> wants_what st1 cs then Inl KeyError
           else
             let st2 = st1\<lparr>wants_what := (\<lambda>cs. if cs \<in> wanters then wants_what st1 cs - {k}
                                               else wants_what st1 cs)\<rparr>
             in Inr (upd_task st2 k (\<lambda>ts. ts
                       \<lparr>ts_who_wants := {}, ts_processing_on := None,
                        ts_exception_blame := None, ts_exception := None,
                        ts_traceback := None\<rparr>)))"

subsection \<open>The transition handlers\<close>

text \<open>
  The keyword arguments that \<^verbatim>\<open>_transition\<close> passes on to a handler. A field is
  \<open>None\<close> when the keyword is not given; \<open>kw_other\<close> says that some keyword is given
  that no handler names (a worker sends \<^verbatim>\<open>metadata\<close>, \<^verbatim>\<open>thread\<close> and others with
  \<^verbatim>\<open>task-finished\<close>). A handler without \<^verbatim>\<open>**kwargs\<close> raises \<^verbatim>\<open>TypeError\<close>
  on a keyword it does not name.
\<close>

record tr_kwargs =
  kw_worker :: "string option"
  kw_nbytes :: "int option"
  kw_type :: "string option"
  kw_typename :: "string option"
  kw_startstops :: "(string \<times> rat \<times> rat) list option"
  kw_cause :: "string option"
  kw_exception :: "string option"
  kw_traceback :: "string option"
  kw_safe :: "bool option"
  kw_other :: bool

definition no_kwargs :: tr_kwargs where
  "no_kwargs = \<lparr>kw_worker = None, kw_nbytes = None, kw_type = None, kw_typename = None,
     kw_startstops = None, kw_cause = None, kw_exception = None, kw_traceback = None,
     kw_safe = None, kw_other = False\<rparr>"

type_synonym outcome = "py_error + (recs \<times> msgs \<times> msgs \<times> scheduler_state)"

text \<open>
  The part that \<^verbatim>\<open>transition_released_waiting\<close> and
  \<^verbatim>\<open>transition_no_worker_waiting\<close> share: the loop over the dependencies.
\<close>

definition wait_for_dependencies :: "scheduler_state \<Rightarrow> string \<Rightarrow> recs \<Rightarrow> recs \<times> scheduler_state" where
  "wait_for_dependencies st k r =
     (let deps = set (ts_dependencies (task_obj st k));
          missing = {d \<in> deps. ts_who_has (task_obj st d) = {}};
          st1 = upd_task st k (\<lambda>ts. ts\<lparr>ts_waiting_on := ts_waiting_on ts \<union> missing\<rparr>);
          released = {d \<in> deps. ts_state (task_obj st1 d) = Released};
          st2 = upd_tasks st1 (deps - released) (\<lambda>dts. dts\<lparr>ts_waiters := insert k (ts_waiters dts)\<rparr>)
      in (recommend r released Waiting, st2))"

definition run_or_park :: "scheduler_state \<Rightarrow> string \<Rightarrow> recs \<Rightarrow> recs \<times> scheduler_state" where
  "run_or_park st k r =
     (if ts_waiting_on (task_obj st k) = {}
      then (if workers st \<noteq> [] then (r(k \<mapsto> Processing), st)
            else (r, set_state (st\<lparr>unrunnable := insert k (unrunnable st)\<rparr>) k No_worker))
      else (r, st))"

definition transition_released_waiting :: "scheduler_state \<Rightarrow> string \<Rightarrow> outcome" where
  "transition_released_waiting st k =
     (if k \<notin> tasks st then Inl KeyError
      else if ts_has_lost_dependencies (task_obj st k)
      then Inr ([k \<mapsto> Forgotten], Map.empty, Map.empty, st)
      else
        let st1 = set_state st k Waiting
        in case find (\<lambda>d. ts_exception_blame (task_obj st1 d) \<noteq> None)
                  (ts_dependencies (task_obj st1 k)) of
             Some d \<Rightarrow>
               Inr ([k \<mapsto> Erred], Map.empty, Map.empty,
                    upd_task st1 k (\<lambda>ts. ts\<lparr>ts_exception_blame :=
                                             ts_exception_blame (task_obj st1 d)\<rparr>))
           | None \<Rightarrow>
               (case wait_for_dependencies st1 k Map.empty of
                  (r1, st2) \<Rightarrow>
                    let st3 = upd_task st2 k (\<lambda>ts. ts\<lparr>ts_waiters :=
                                {d \<in> ts_dependents ts. ts_state (task_obj st2 d) = Waiting}\<rparr>)
                    in (case run_or_park st3 k r1 of
                          (r2, st4) \<Rightarrow> Inr (r2, Map.empty, Map.empty, st4))))"

definition transition_no_worker_waiting :: "scheduler_state \<Rightarrow> string \<Rightarrow> outcome" where
  "transition_no_worker_waiting st k =
     (if k \<notin> tasks st then Inl KeyError
      else if k \<notin> unrunnable st then Inl KeyError
      else
        let st1 = st\<lparr>unrunnable := unrunnable st - {k}\<rparr>
        in if ts_has_lost_dependencies (task_obj st1 k)
           then Inr ([k \<mapsto> Forgotten], Map.empty, Map.empty, st1)
           else
             (case wait_for_dependencies st1 k Map.empty of
                (r1, st2) \<Rightarrow>
                  (case run_or_park (set_state st2 k Waiting) k r1 of
                     (r2, st4) \<Rightarrow> Inr (r2, Map.empty, Map.empty, st4))))"

definition transition_no_worker_memory ::
  "scheduler_state \<Rightarrow> string \<Rightarrow> tr_kwargs \<Rightarrow> outcome" where
  "transition_no_worker_memory st k kw =
     (case kw_worker kw of
        None \<Rightarrow> Inl KeyError
      | Some w \<Rightarrow>
          if w \<notin> set (workers st) then Inl KeyError
          else if k \<notin> tasks st then Inl KeyError
          else if k \<notin> unrunnable st then Inl KeyError
          else
            let st1 = st\<lparr>unrunnable := unrunnable st - {k}\<rparr>;
                st2 = (case kw_nbytes kw of None \<Rightarrow> st1 | Some n \<Rightarrow> set_nbytes st1 k n)
            in bind_err (check_idle_saturated st2 w (- 1)) (\<lambda>st3.
                 bind_err (add_to_memory st3 k w Map.empty Map.empty (kw_type kw) (kw_typename kw))
                   (\<lambda>(r, cm, st4). Inr (r, cm, Map.empty, set_state st4 k Memory))))"

definition transition_waiting_processing :: "scheduler_state \<Rightarrow> string \<Rightarrow> outcome" where
  "transition_waiting_processing st k =
     (if k \<notin> tasks st then Inl KeyError
      else
        bind_err (decide_worker st k) (\<lambda>(chosen, st1).
          case chosen of
            None \<Rightarrow> Inr (Map.empty, Map.empty, Map.empty, st1)
          | Some w \<Rightarrow>
              bind_err (set_duration_estimate st1 k w) (\<lambda>(d, st2).
                let st3 = set_state (upd_task st2 k (\<lambda>ts. ts\<lparr>ts_processing_on := Some w\<rparr>))
                            k Processing
                in bind_err (consume_resources st3 k w) (\<lambda>st4.
                     bind_err (check_idle_saturated st4 w (- 1)) (\<lambda>st5.
                       let st6 = st5\<lparr>n_tasks := n_tasks st5 + 1\<rparr>;
                           st7 = (if ts_actor (task_obj st6 k)
                                  then upd_worker st6 w (\<lambda>ws. ws\<lparr>ws_actors := insert k (ws_actors ws)\<rparr>)
                                  else st6)
                       in Inr (Map.empty, Map.empty, [w \<mapsto> [Compute_task k]],
                               snd (get_task_duration st7 k)))))))"

definition transition_waiting_memory ::
  "scheduler_state \<Rightarrow> string \<Rightarrow> tr_kwargs \<Rightarrow> outcome" where
  "transition_waiting_memory st k kw =
     (case kw_worker kw of
        None \<Rightarrow> Inl KeyError
      | Some w \<Rightarrow>
          if w \<notin> set (workers st) then Inl KeyError
          else if k \<notin> tasks st then Inl KeyError
          else
            let st1 = upd_task st k (\<lambda>ts. ts\<lparr>ts_waiting_on := {}\<rparr>);
                st2 = (case kw_nbytes kw of None \<Rightarrow> st1 | Some n \<Rightarrow> set_nbytes st1 k n)
            in bind_err (check_idle_saturated st2 w (- 1)) (\<lambda>st3.
                 bind_err (add_to_memory st3 k w Map.empty Map.empty (kw_type kw) (kw_typename kw))
                   (\<lambda>(r, cm, st4). Inr (r, cm, Map.empty, st4))))"

text \<open>
  The timing block of \<^verbatim>\<open>transition_processing_memory\<close>: a \<^verbatim>\<open>compute\<close> entry of
  \<^verbatim>\<open>startstops\<close> moves the duration average of the prefix, and the tasks that waited
  for a first measurement of the prefix get a new estimate.
\<close>

definition add_duration :: "scheduler_state \<Rightarrow> string \<Rightarrow> string \<times> rat \<times> rat \<Rightarrow> scheduler_state" where
  "add_duration st p ss =
     (case ss of
        (action, start, stop) \<Rightarrow>
          if action = ''compute''
          then
            let old = prefix_duration_average st p
            in st\<lparr>prefix_duration_average := (prefix_duration_average st)
                   (p := (if old < 0 then stop - start
                          else 1 / 2 * (stop - start) + 1 / 2 * old))\<rparr>
          else st)"

definition reestimate :: "scheduler_state \<Rightarrow> string list \<Rightarrow> py_error + scheduler_state" where
  "reestimate st ks =
     foldl (\<lambda>acc t. bind_err acc (\<lambda>s.
              case ts_processing_on (task_obj s t) of
                None \<Rightarrow> Inr s
              | Some w \<Rightarrow> bind_err (set_duration_estimate s t w) (\<lambda>(d, s'). Inr s')))
       (Inr st) ks"

definition transition_processing_memory ::
  "scheduler_state \<Rightarrow> string \<Rightarrow> tr_kwargs \<Rightarrow> outcome" where
  "transition_processing_memory st k kw =
     (if k \<notin> tasks st then Inl KeyError
      else
        case kw_worker kw of
          None \<Rightarrow> Inl AssertionError
        | Some w \<Rightarrow>
            if w = [] then Inl AssertionError
            else if w \<notin> set (workers st)
            then Inr ([k \<mapsto> Released], Map.empty, Map.empty, st)
            else
              bind_err
                (if Some w \<noteq> ts_processing_on (task_obj st k)
                 then (case ts_processing_on (task_obj st k) of
                         None \<Rightarrow> Inl AttributeError
                       | Some p \<Rightarrow> Inr [p \<mapsto> [Cancel_compute k]])
                 else Inr Map.empty)
                (\<lambda>wm.
                   let p = ts_prefix (task_obj st k);
                       st1 = foldl (\<lambda>s ss. add_duration s p ss) st
                               (case kw_startstops kw of None \<Rightarrow> [] | Some l \<Rightarrow> l);
                       s = (case unknown_durations st1 p of None \<Rightarrow> [] | Some l \<Rightarrow> l);
                       st2 = st1\<lparr>unknown_durations := (unknown_durations st1)(p := None)\<rparr>
                   in bind_err (reestimate st2 s) (\<lambda>st3.
                        let st4 = (case kw_nbytes kw of None \<Rightarrow> st3 | Some n \<Rightarrow> set_nbytes st3 k n)
                        in bind_err (remove_from_processing st4 k) (\<lambda>(w', st5).
                             bind_err (add_to_memory st5 k w Map.empty Map.empty
                                         (kw_type kw) (kw_typename kw))
                               (\<lambda>(r, cm, st6). Inr (r, cm, wm, st6))))))"

definition transition_memory_released :: "scheduler_state \<Rightarrow> string \<Rightarrow> outcome" where
  "transition_memory_released st k =
     (if k \<notin> tasks st then Inl KeyError
      else
        let ts = task_obj st k;
            st1 = (if ts_actor ts
                   then st\<lparr>worker_obj := (\<lambda>a. if a \<in> ts_who_has ts
                            then (worker_obj st a)\<lparr>ws_actors := ws_actors (worker_obj st a) - {k}\<rparr>
                            else worker_obj st a)\<rparr>
                   else st)
        in if ts_actor ts \<and> ts_who_wants ts \<noteq> {}
           then Inr ([k \<mapsto> Erred], Map.empty, Map.empty,
                     upd_task st1 k (\<lambda>ts. ts\<lparr>ts_exception_blame := Some k,
                        ts_exception := Some ''Worker holding Actor was lost''\<rparr>))
           else
             let waiters = ts_waiters (task_obj st1 k);
                 r1 = recommend Map.empty
                        {d \<in> waiters. ts_state (task_obj st1 d) = No_worker
                                       \<or> ts_state (task_obj st1 d) = Processing} Waiting;
                 st2 = upd_tasks st1 {d \<in> waiters. ts_state (task_obj st1 d) = Waiting}
                         (\<lambda>dts. dts\<lparr>ts_waiting_on := insert k (ts_waiting_on dts)\<rparr>);
                 wm = send_to Map.empty (ts_who_has (task_obj st2 k)) (Free_keys [k])
             in bind_err (remove_all_replicas st2 k) (\<lambda>st3.
                  let st4 = set_state st3 k Released;
                      ts4 = task_obj st4 k;
                      cm = send_to Map.empty (ts_who_wants ts4) (Lost_data k);
                      r2 = (if \<not> ts_run_spec ts4 then r1(k \<mapsto> Forgotten)
                            else if ts_has_lost_dependencies ts4 then r1(k \<mapsto> Forgotten)
                            else if ts_who_wants ts4 \<noteq> {} \<or> ts_waiters ts4 \<noteq> {}
                            then r1(k \<mapsto> Waiting)
                            else r1)
                  in Inr (r2, cm, wm, st4)))"

definition transition_released_erred :: "scheduler_state \<Rightarrow> string \<Rightarrow> outcome" where
  "transition_released_erred st k =
     (if k \<notin> tasks st then Inl KeyError
      else
        let failing = ts_exception_blame (task_obj st k);
            dependents = ts_dependents (task_obj st k);
            st1 = upd_tasks st dependents (\<lambda>dts. dts\<lparr>ts_exception_blame := failing\<rparr>);
            r = recommend Map.empty {d \<in> dependents. ts_who_has (task_obj st1 d) = {}} Erred
        in case failing of
             None \<Rightarrow> Inl AttributeError
           | Some f \<Rightarrow>
               let report = Task_erred k (ts_exception (task_obj st1 f)) (ts_traceback (task_obj st1 f));
                   cm = send_to Map.empty (ts_who_wants (task_obj st1 k)) report
               in Inr (r, cm, Map.empty, set_state st1 k Erred))"

definition transition_erred_released :: "scheduler_state \<Rightarrow> string \<Rightarrow> outcome" where
  "transition_erred_released st k =
     (if k \<notin> tasks st then Inl KeyError
      else
        let st1 = upd_task st k (\<lambda>ts. ts\<lparr>ts_exception := None, ts_exception_blame := None,
                                          ts_traceback := None\<rparr>);
            r = recommend Map.empty
                  {d \<in> ts_dependents (task_obj st1 k). ts_state (task_obj st1 d) = Erred} Waiting;
            wm = send_to Map.empty {a. Some a \<in> ts_erred_on (task_obj st1 k)} (Free_keys [k]);
            st2 = upd_task st1 k (\<lambda>ts. ts\<lparr>ts_erred_on := {}\<rparr>);
            cm = send_to Map.empty (ts_who_wants (task_obj st2 k)) (Task_retried k)
        in Inr (r, cm, wm, set_state st2 k Released))"

definition transition_waiting_released :: "scheduler_state \<Rightarrow> string \<Rightarrow> outcome" where
  "transition_waiting_released st k =
     (if k \<notin> tasks st then Inl KeyError
      else
        let waited = {d \<in> set (ts_dependencies (task_obj st k)). k \<in> ts_waiters (task_obj st d)};
            st1 = upd_tasks st waited (\<lambda>dts. dts\<lparr>ts_waiters := ts_waiters dts - {k}\<rparr>);
            r1 = recommend Map.empty {d \<in> waited. ts_waiters (task_obj st1 d) = {}
                                               \<and> ts_who_wants (task_obj st1 d) = {}} Released;
            st2 = set_state (upd_task st1 k (\<lambda>ts. ts\<lparr>ts_waiting_on := {}\<rparr>)) k Released;
            ts2 = task_obj st2 k
        in if ts_has_lost_dependencies ts2
           then Inr (r1(k \<mapsto> Forgotten), Map.empty, Map.empty, st2)
           else if ts_exception_blame ts2 = None
                   \<and> (ts_who_wants ts2 \<noteq> {} \<or> ts_waiters ts2 \<noteq> {})
           then Inr (r1(k \<mapsto> Waiting), Map.empty, Map.empty, st2)
           else Inr (r1, Map.empty, Map.empty, upd_task st2 k (\<lambda>ts. ts\<lparr>ts_waiters := {}\<rparr>)))"

definition transition_processing_released :: "scheduler_state \<Rightarrow> string \<Rightarrow> outcome" where
  "transition_processing_released st k =
     (if k \<notin> tasks st then Inl KeyError
      else
        bind_err (remove_from_processing st k) (\<lambda>(w, st1).
          let wm = (case w of
                      None \<Rightarrow> Map.empty
                    | Some a \<Rightarrow> if a \<noteq> [] then [a \<mapsto> [Free_keys [k]]] else Map.empty);
              st2 = set_state st1 k Released;
              ts2 = task_obj st2 k;
              r1 = (if ts_has_lost_dependencies ts2 then [k \<mapsto> Forgotten]
                    else if ts_waiters ts2 \<noteq> {} \<or> ts_who_wants ts2 \<noteq> {} then [k \<mapsto> Waiting]
                    else Map.empty)
          in if r1 k \<noteq> Some Waiting
             then
               let live = {d \<in> set (ts_dependencies ts2). ts_state (task_obj st2 d) \<noteq> Released};
                   st3 = upd_tasks st2 live (\<lambda>dts. dts\<lparr>ts_waiters := ts_waiters dts - {k}\<rparr>);
                   r2 = recommend r1 {d \<in> live. ts_waiters (task_obj st3 d) = {}
                                          \<and> ts_who_wants (task_obj st3 d) = {}} Released
               in Inr (r2, Map.empty, wm, upd_task st3 k (\<lambda>ts. ts\<lparr>ts_waiters := {}\<rparr>))
             else Inr (r1, Map.empty, wm, st2)))"

text \<open>
  \<^verbatim>\<open>transition_processing_erred\<close> in three blocks: the actor is taken off its worker,
  the task is removed from processing, and the error is recorded and passed on.
\<close>

definition drop_actor :: "scheduler_state \<Rightarrow> string \<Rightarrow> py_error + scheduler_state" where
  "drop_actor st k =
     (if ts_actor (task_obj st k)
      then (case ts_processing_on (task_obj st k) of
              None \<Rightarrow> Inl AttributeError
            | Some p \<Rightarrow>
                if k \<in> ws_actors (worker_obj st p)
                then Inr (upd_worker st p (\<lambda>ws. ws\<lparr>ws_actors := ws_actors ws - {k}\<rparr>))
                else Inl KeyError)
      else Inr st)"

definition mark_erred ::
  "scheduler_state \<Rightarrow> string \<Rightarrow> string option \<Rightarrow> tr_kwargs \<Rightarrow> outcome" where
  "mark_erred st1 k w kw =
     (let erred_on = (case w of
                        None \<Rightarrow> kw_worker kw
                      | Some a \<Rightarrow> if a \<noteq> [] then Some a else kw_worker kw);
          st2 = upd_task st1 k (\<lambda>ts. ts
                  \<lparr>ts_erred_on := insert erred_on (ts_erred_on ts),
                   ts_exception := (case kw_exception kw of None \<Rightarrow> ts_exception ts
                                    | Some e \<Rightarrow> Some e),
                   ts_traceback := (case kw_traceback kw of None \<Rightarrow> ts_traceback ts
                                    | Some t \<Rightarrow> Some t)\<rparr>)
      in if (case kw_cause kw of None \<Rightarrow> False | Some c \<Rightarrow> c \<notin> tasks st2)
         then Inl KeyError
         else
           let st3 = (case kw_cause kw of
                        None \<Rightarrow> st2
                      | Some c \<Rightarrow> upd_task st2 k (\<lambda>ts. ts\<lparr>ts_exception_blame := Some c\<rparr>));
               failing = ts_exception_blame (task_obj st3 k);
               dependents = ts_dependents (task_obj st3 k);
               st4 = upd_tasks st3 dependents (\<lambda>dts. dts\<lparr>ts_exception_blame := failing\<rparr>);
               r1 = recommend Map.empty dependents Erred;
               deps = set (ts_dependencies (task_obj st4 k));
               st5 = upd_tasks st4 deps (\<lambda>dts. dts\<lparr>ts_waiters := ts_waiters dts - {k}\<rparr>);
               r2 = recommend r1 {d \<in> deps. ts_waiters (task_obj st5 d) = {}
                                      \<and> ts_who_wants (task_obj st5 d) = {}} Released;
               st6 = set_state (upd_task st5 k (\<lambda>ts. ts\<lparr>ts_waiters := {}\<rparr>)) k Erred
           in case failing of
                None \<Rightarrow> Inl AttributeError
              | Some f \<Rightarrow>
                  let report = Task_erred k (ts_exception (task_obj st6 f))
                                 (ts_traceback (task_obj st6 f));
                      cm = send_to Map.empty (ts_who_wants (task_obj st6 k)) report
                  in bind_err (release_fire_and_forget st6 k r2)
                       (\<lambda>(r3, st7). Inr (r3, cm, Map.empty, st7)))"

definition transition_processing_erred ::
  "scheduler_state \<Rightarrow> string \<Rightarrow> tr_kwargs \<Rightarrow> outcome" where
  "transition_processing_erred st k kw =
     (if k \<notin> tasks st then Inl KeyError
      else
        bind_err (drop_actor st k) (\<lambda>st0.
          bind_err (remove_from_processing st0 k) (\<lambda>(w, st1). mark_erred st1 k w kw)))"

definition transition_no_worker_released :: "scheduler_state \<Rightarrow> string \<Rightarrow> outcome" where
  "transition_no_worker_released st k =
     (if k \<notin> tasks st then Inl KeyError
      else if k \<notin> unrunnable st then Inl KeyError
      else
        let st1 = set_state (st\<lparr>unrunnable := unrunnable st - {k}\<rparr>) k Released;
            st2 = upd_tasks st1 (set (ts_dependencies (task_obj st1 k)))
                    (\<lambda>dts. dts\<lparr>ts_waiters := ts_waiters dts - {k}\<rparr>)
        in Inr (Map.empty, Map.empty, Map.empty, upd_task st2 k (\<lambda>ts. ts\<lparr>ts_waiters := {}\<rparr>)))"

definition forget :: "scheduler_state \<Rightarrow> string \<Rightarrow> outcome" where
  "forget st k =
     bind_err (propagate_forgotten st k Map.empty Map.empty) (\<lambda>(r, wm, st1).
       bind_err (task_to_client_msgs st1 k) (\<lambda>cm.
         bind_err (remove_key st1 k) (\<lambda>st2. Inr (r, cm, wm, st2))))"

definition transition_memory_forgotten :: "scheduler_state \<Rightarrow> string \<Rightarrow> outcome" where
  "transition_memory_forgotten st k =
     (if k \<notin> tasks st then Inl KeyError
      else
        let ts = task_obj st k;
            st1 = (if ts_actor ts
                   then st\<lparr>worker_obj := (\<lambda>a. if a \<in> ts_who_has ts
                            then (worker_obj st a)\<lparr>ws_actors := ws_actors (worker_obj st a) - {k}\<rparr>
                            else worker_obj st a)\<rparr>
                   else st)
        in forget st1 k)"

definition transition_released_forgotten :: "scheduler_state \<Rightarrow> string \<Rightarrow> outcome" where
  "transition_released_forgotten st k =
     (if k \<notin> tasks st then Inl KeyError else forget st k)"

subsection \<open>The transition table and \<^verbatim>\<open>_transition\<close>\<close>

text \<open>
  The dict \<^verbatim>\<open>_transitions_table\<close> of \<^verbatim>\<open>SchedulerState.__init__\<close>, entry by entry
  and in its order, with a name for each handler.
\<close>

datatype handler =
  Released_waiting | Waiting_released | Waiting_processing | Waiting_memory
  | Processing_released | Processing_memory | Processing_erred
  | No_worker_released | No_worker_waiting | No_worker_memory
  | Released_forgotten | Memory_forgotten | Erred_released | Memory_released
  | Released_erred

definition transitions_table_entries :: "((task_status \<times> task_status) \<times> handler) list" where
  "transitions_table_entries =
     [((Released, Waiting), Released_waiting),
      ((Waiting, Released), Waiting_released),
      ((Waiting, Processing), Waiting_processing),
      ((Waiting, Memory), Waiting_memory),
      ((Processing, Released), Processing_released),
      ((Processing, Memory), Processing_memory),
      ((Processing, Erred), Processing_erred),
      ((No_worker, Released), No_worker_released),
      ((No_worker, Waiting), No_worker_waiting),
      ((No_worker, Memory), No_worker_memory),
      ((Released, Forgotten), Released_forgotten),
      ((Memory, Forgotten), Memory_forgotten),
      ((Erred, Released), Erred_released),
      ((Memory, Released), Memory_released),
      ((Released, Erred), Released_erred)]"

definition transitions_table :: "task_status \<times> task_status \<Rightarrow> handler option" where
  "transitions_table = map_of transitions_table_entries"

text \<open>
  Calling a handler as \<^verbatim>\<open>func(key, *args, **kwargs)\<close>. Three handlers take any
  keyword; \<^verbatim>\<open>transition_no_worker_memory\<close> names \<^verbatim>\<open>nbytes\<close>, \<^verbatim>\<open>type\<close>,
  \<^verbatim>\<open>typename\<close> and \<^verbatim>\<open>worker\<close>, \<^verbatim>\<open>transition_memory_released\<close> names
  \<^verbatim>\<open>safe\<close> (which it reads only under \<^verbatim>\<open>validate\<close>), and the others take the key
  alone.
\<close>

definition only_memory_kwargs :: "tr_kwargs \<Rightarrow> bool" where
  "only_memory_kwargs kw \<longleftrightarrow>
     kw\<lparr>kw_worker := None, kw_nbytes := None, kw_type := None, kw_typename := None\<rparr> = no_kwargs"

definition key_only :: "tr_kwargs \<Rightarrow> outcome \<Rightarrow> outcome" where
  "key_only kw res = (if kw = no_kwargs then res else Inl TypeError)"

fun run_handler :: "handler \<Rightarrow> scheduler_state \<Rightarrow> string \<Rightarrow> tr_kwargs \<Rightarrow> outcome" where
  "run_handler Released_waiting st k kw = key_only kw (transition_released_waiting st k)"
| "run_handler Waiting_released st k kw = key_only kw (transition_waiting_released st k)"
| "run_handler Waiting_processing st k kw = key_only kw (transition_waiting_processing st k)"
| "run_handler Waiting_memory st k kw = transition_waiting_memory st k kw"
| "run_handler Processing_released st k kw = key_only kw (transition_processing_released st k)"
| "run_handler Processing_memory st k kw = transition_processing_memory st k kw"
| "run_handler Processing_erred st k kw = transition_processing_erred st k kw"
| "run_handler No_worker_released st k kw = key_only kw (transition_no_worker_released st k)"
| "run_handler No_worker_waiting st k kw = key_only kw (transition_no_worker_waiting st k)"
| "run_handler No_worker_memory st k kw =
     (if only_memory_kwargs kw then transition_no_worker_memory st k kw else Inl TypeError)"
| "run_handler Released_forgotten st k kw = key_only kw (transition_released_forgotten st k)"
| "run_handler Memory_forgotten st k kw = key_only kw (transition_memory_forgotten st k)"
| "run_handler Erred_released st k kw = key_only kw (transition_erred_released st k)"
| "run_handler Memory_released st k kw =
     (if kw\<lparr>kw_safe := None\<rparr> = no_kwargs then transition_memory_released st k
      else Inl TypeError)"
| "run_handler Released_erred st k kw = key_only kw (transition_released_erred st k)"

text \<open>
  Merging the messages of a second step into those of a first (\<^verbatim>\<open>msgs.extend\<close>), and
  the end of \<^verbatim>\<open>_transition\<close>: the entry in the transition log and the removal of a
  task group whose last task was forgotten.
\<close>

definition merge_msgs :: "msgs \<Rightarrow> msgs \<Rightarrow> msgs" where
  "merge_msgs m1 m2 =
     (\<lambda>p. case m2 p of
            None \<Rightarrow> m1 p
          | Some new \<Rightarrow> (case m1 p of None \<Rightarrow> Some new | Some old \<Rightarrow> Some (old @ new)))"

definition log_append ::
  "scheduler_state \<Rightarrow> string \<times> task_status \<times> task_status \<times> recs \<Rightarrow> scheduler_state" where
  "log_append st e =
     (let l = transition_log st @ [e]
      in st\<lparr>transition_log := drop (length l - transition_log_length st) l\<rparr>)"

definition finish_transition ::
  "scheduler_state \<Rightarrow> string \<Rightarrow> task_status \<Rightarrow> recs \<Rightarrow> msgs \<Rightarrow> msgs \<Rightarrow> outcome" where
  "finish_transition st k start r cm wm =
     (let ts = task_obj st k;
          st1 = log_append st (k, start, ts_state ts, r);
          g = ts_group ts;
          tg = group_obj st1 g
      in if ts_state ts = Forgotten \<and> tg_name tg \<in> task_groups st1
            \<and> (\<forall>s\<in>{Released, Waiting, No_worker, Processing, Erred, Memory}. tg_states tg s = 0)
         then Inr (r, cm, wm, st1\<lparr>task_groups := task_groups st1 - {tg_name tg}\<rparr>)
         else Inr (r, cm, wm, st1))"

text \<open>
  \<^verbatim>\<open>SchedulerState._transition(key, finish, **kwargs)\<close>. The function calls itself
  once, as \<^verbatim>\<open>self._transition(key, "released")\<close> on the compound path; that call
  cannot take the compound path again, so it is \<open>transition_direct\<close>, the function
  without that branch.
\<close>

definition transition_direct ::
  "scheduler_state \<Rightarrow> string \<Rightarrow> task_status \<Rightarrow> tr_kwargs \<Rightarrow> outcome" where
  "transition_direct st k finish kw =
     (if k \<notin> tasks st then Inr (Map.empty, Map.empty, Map.empty, st)
      else
        let start = ts_state (task_obj st k)
        in if start = finish then Inr (Map.empty, Map.empty, Map.empty, st)
           else
             (case transitions_table (start, finish) of
                Some func \<Rightarrow>
                  bind_err (run_handler func st k kw) (\<lambda>(r, cm, wm, st1).
                    finish_transition (st1\<lparr>transition_counter := transition_counter st1 + 1\<rparr>)
                      k start r cm wm)
              | None \<Rightarrow> Inl RuntimeError))"

definition transition :: "scheduler_state \<Rightarrow> string \<Rightarrow> task_status \<Rightarrow> tr_kwargs \<Rightarrow> outcome" where
  "transition st k finish kw =
     (if k \<notin> tasks st then Inr (Map.empty, Map.empty, Map.empty, st)
      else
        let start = ts_state (task_obj st k)
        in if start = finish then Inr (Map.empty, Map.empty, Map.empty, st)
           else
             (case transitions_table (start, finish) of
                Some func \<Rightarrow> transition_direct st k finish kw
              | None \<Rightarrow>
                  if start \<noteq> Released \<and> finish \<noteq> Released
                  then
                    if kw \<noteq> no_kwargs then Inl AssertionError
                    else
                      bind_err (transition_direct st k Released no_kwargs) (\<lambda>(a_recs, a_cmsgs, a_wmsgs, st1).
                        let v = (case a_recs k of None \<Rightarrow> finish | Some v' \<Rightarrow> v')
                        in case transitions_table (Released, v) of
                             None \<Rightarrow> Inl KeyError
                           | Some func \<Rightarrow>
                               bind_err (run_handler func st1 k no_kwargs) (\<lambda>(b_recs, b_cmsgs, b_wmsgs, st2).
                                 finish_transition st2 k Released (a_recs ++ b_recs)
                                   (merge_msgs a_cmsgs b_cmsgs) (merge_msgs a_wmsgs b_wmsgs)))
                  else Inl RuntimeError))"

subsection \<open>Stimuli\<close>


subsection \<open>Validation of the replicas\<close>

text \<open>
  The two assertions of \<^verbatim>\<open>validate_task_state\<close> about the replicas of a task:
  \<^verbatim>\<open>bool(ts._who_has) == (ts._state == "memory")\<close>, and \<^verbatim>\<open>ts in ws._has_what\<close>
  for every \<^verbatim>\<open>ws\<close> in \<^verbatim>\<open>ts._who_has\<close>.
\<close>

definition validate_replicas :: "scheduler_state \<Rightarrow> string \<Rightarrow> bool" where
  "validate_replicas st t \<longleftrightarrow>
     ((ts_who_has (task_obj st t) \<noteq> {}) = (ts_state (task_obj st t) = Memory))
     \<and> (\<forall>w\<in>ts_who_has (task_obj st t). t \<in> set (ws_has_what (worker_obj st w)))"

text \<open>
  Two states that agree on the task table, on who has which task and on what each worker
  has; the states of the tasks agree too, but for the task \<open>k\<close>.
\<close>

definition same_replicas_but :: "string \<Rightarrow> scheduler_state \<Rightarrow> scheduler_state \<Rightarrow> bool" where
  "same_replicas_but k st st' \<longleftrightarrow>
     tasks st' = tasks st
     \<and> (\<forall>t. ts_who_has (task_obj st' t) = ts_who_has (task_obj st t))
     \<and> (\<forall>t. t \<noteq> k \<longrightarrow> ts_state (task_obj st' t) = ts_state (task_obj st t))
     \<and> (\<forall>w. ws_has_what (worker_obj st' w) = ws_has_what (worker_obj st w))"

definition same_replicas :: "scheduler_state \<Rightarrow> scheduler_state \<Rightarrow> bool" where
  "same_replicas st st' \<longleftrightarrow>
     tasks st' = tasks st
     \<and> (\<forall>t. ts_who_has (task_obj st' t) = ts_who_has (task_obj st t))
     \<and> (\<forall>t. ts_state (task_obj st' t) = ts_state (task_obj st t))
     \<and> (\<forall>w. ws_has_what (worker_obj st' w) = ws_has_what (worker_obj st w))"

section \<open>Example states\<close>



text \<open>
  Two running workers on two hosts, and a task that names the address of the first worker and
  the host of the second as the places where it may run.
\<close>

definition two_hosts :: scheduler_state where
  "two_hosts = empty_scheduler
     \<lparr>tasks := {''x''},
      task_obj := (task_obj empty_scheduler)
        (''x'' := (new_task ''x'' True Waiting ''g'')
           \<lparr>ts_worker_restrictions := Some {''tcp://h1:1''},
            ts_host_restrictions := Some {''h2''}\<rparr>),
      workers := [''tcp://h1:1'', ''tcp://h2:1''],
      worker_obj := (worker_obj empty_scheduler)
        (''tcp://h1:1'' := new_worker ''tcp://h1:1'' ''h1'' Running 1 2000,
         ''tcp://h2:1'' := new_worker ''tcp://h2:1'' ''h2'' Running 1 2000),
      host_info := [''h1'' \<mapsto> {''tcp://h1:1''}, ''h2'' \<mapsto> {''tcp://h2:1''}],
      running := {''tcp://h1:1'', ''tcp://h2:1''},
      total_nthreads := 2\<rparr>"

text \<open>
  A cluster whose only worker is paused, and a task with loose restrictions that names a
  worker which is not connected.
\<close>

definition paused_cluster :: scheduler_state where
  "paused_cluster = empty_scheduler
     \<lparr>tasks := {''x''},
      task_obj := (task_obj empty_scheduler)
        (''x'' := (new_task ''x'' True Waiting ''g'')
           \<lparr>ts_worker_restrictions := Some {''tcp://gone:1''},
            ts_loose_restrictions := True\<rparr>),
      workers := [''tcp://p:1''],
      worker_obj := (worker_obj empty_scheduler)
        (''tcp://p:1'' := new_worker ''tcp://p:1'' ''p'' Paused 1 2000),
      host_info := [''p'' \<mapsto> {''tcp://p:1''}],
      total_nthreads := 1\<rparr>"

text \<open>
  Three workers, the third one paused and on the host of the second; the task names the
  first worker, the second host and one unit of the resource \<open>gpu\<close>, which the second
  worker does not supply.
\<close>

definition three_workers :: scheduler_state where
  "three_workers = empty_scheduler
     \<lparr>tasks := {''y''},
      task_obj := (task_obj empty_scheduler)
        (''y'' := (new_task ''y'' True Waiting ''g'')
           \<lparr>ts_worker_restrictions := Some {''tcp://h1:1''},
            ts_host_restrictions := Some {''h2''},
            ts_resource_restrictions := Some [(''gpu'', 1)]\<rparr>),
      workers := [''tcp://h1:1'', ''tcp://h2:1'', ''tcp://h2:2''],
      worker_obj := (worker_obj empty_scheduler)
        (''tcp://h1:1'' := new_worker ''tcp://h1:1'' ''h1'' Running 1 2000,
         ''tcp://h2:1'' := new_worker ''tcp://h2:1'' ''h2'' Running 1 2000,
         ''tcp://h2:2'' := new_worker ''tcp://h2:2'' ''h2'' Paused 1 2000),
      host_info := [''h1'' \<mapsto> {''tcp://h1:1''}, ''h2'' \<mapsto> {''tcp://h2:1'', ''tcp://h2:2''}],
      resources := [''gpu'' \<mapsto> [(''tcp://h1:1'', 2), (''tcp://h2:1'', 0), (''tcp://h2:2'', 4)]],
      running := {''tcp://h1:1'', ''tcp://h2:1''},
      total_nthreads := 3\<rparr>"



text \<open>
  Worker A holds six keys of 200 bytes each, inserted in the order k1 to k6, and worker B
  holds nothing; both have a memory limit of 2000 bytes, and the configured thresholds are
  0.3, 0.6 and a gap of 0.1.
\<close>

definition rebalance_task :: "string \<Rightarrow> task_state" where
  "rebalance_task k = (new_task k True Memory ''g'')
     \<lparr>ts_nbytes := 200, ts_who_has := {''tcp://A:1''}, ts_who_wants := {''client''}\<rparr>"

definition rebalance_cluster :: scheduler_state where
  "rebalance_cluster = empty_scheduler
     \<lparr>tasks := {''k1'', ''k2'', ''k3'', ''k4'', ''k5'', ''k6''},
      task_obj := (task_obj empty_scheduler)
        (''k1'' := rebalance_task ''k1'', ''k2'' := rebalance_task ''k2'',
         ''k3'' := rebalance_task ''k3'', ''k4'' := rebalance_task ''k4'',
         ''k5'' := rebalance_task ''k5'', ''k6'' := rebalance_task ''k6''),
      workers := [''tcp://A:1'', ''tcp://B:1''],
      worker_obj := (worker_obj empty_scheduler)
        (''tcp://A:1'' := (new_worker ''tcp://A:1'' ''A'' Running 1 2000)
           \<lparr>ws_nbytes := 1200,
            ws_has_what := [''k1'', ''k2'', ''k3'', ''k4'', ''k5'', ''k6''],
            ws_metrics_memory := Some 1200\<rparr>,
         ''tcp://B:1'' := (new_worker ''tcp://B:1'' ''B'' Running 1 2000)
           \<lparr>ws_metrics_memory := Some 0\<rparr>),
      running := {''tcp://A:1'', ''tcp://B:1''},
      total_nthreads := 2,
      memory_rebalance_measure := Optimistic,
      memory_rebalance_sender_min := 3 / 10,
      memory_rebalance_recipient_max := 6 / 10,
      memory_rebalance_half_gap := 1 / 10 / 2\<rparr>"

definition worker_id :: "string \<Rightarrow> nat" where
  "worker_id a = (if a = ''tcp://A:1'' then 1 else 2)"

text \<open>
  One worker that is processing the task ''x'', which a client wants and which may be
  retried once; and the same state with no retry left.
\<close>

definition retry_cluster :: scheduler_state where
  "retry_cluster = empty_scheduler
     \<lparr>tasks := {''x''},
      task_obj := (task_obj empty_scheduler)
        (''x'' := (new_task ''x'' True Processing ''g'')
           \<lparr>ts_retries := 1, ts_who_wants := {''client''},
            ts_processing_on := Some ''tcp://w:1''\<rparr>),
      workers := [''tcp://w:1''],
      worker_obj := (worker_obj empty_scheduler)
        (''tcp://w:1'' := (new_worker ''tcp://w:1'' ''w'' Running 1 2000)
           \<lparr>ws_occupancy := 1 / 2, ws_processing := [(''x'', 1 / 2)]\<rparr>),
      task_groups := {''g''},
      group_obj := (group_obj empty_scheduler)
        (''g'' := (new_group ''g'')\<lparr>tg_states := (\<lambda>_. 0)(Processing := 1)\<rparr>),
      clients := {''client'', ''fire-and-forget''},
      wants_what := (wants_what empty_scheduler)(''client'' := {''x''}),
      running := {''tcp://w:1''},
      total_nthreads := 1,
      total_occupancy := 1 / 2\<rparr>"

definition no_retry_cluster :: scheduler_state where
  "no_retry_cluster = upd_task retry_cluster ''x'' (\<lambda>ts. ts\<lparr>ts_retries := 0\<rparr>)"

text \<open>A task that has erred and that nobody wants, on a scheduler without workers.\<close>

definition erred_cluster :: scheduler_state where
  "erred_cluster = empty_scheduler
     \<lparr>tasks := {''x''},
      task_obj := (task_obj empty_scheduler)
        (''x'' := (new_task ''x'' True Erred ''g'')
           \<lparr>ts_exception := Some ''boom'', ts_exception_blame := Some ''x''\<rparr>),
      task_groups := {''g''},
      group_obj := (group_obj empty_scheduler)
        (''g'' := (new_group ''g'')\<lparr>tg_states := (\<lambda>_. 0)(Erred := 1)\<rparr>),
      clients := {''fire-and-forget''}\<rparr>"

text \<open>The keywords of a \<^verbatim>\<open>task-erred\<close> message from the worker.\<close>

definition erred_kwargs :: tr_kwargs where
  "erred_kwargs = no_kwargs
     \<lparr>kw_worker := Some ''tcp://w:1'', kw_exception := Some ''boom'',
      kw_traceback := Some ''trace''\<rparr>"

section \<open>Properties of the heartbeat interval\<close>

text \<open>
  Claim C9, as stated, gives one second for every worker count above 10 and at most 50.
  At exactly 50 workers the source's test \<^verbatim>\<open>n < 50\<close> fails and two seconds are returned.
\<close>

theorem heartbeat_interval_50_counterexample:
  "(10::int) < 50 \<and> (50::int) \<le> 50 \<and> heartbeat_interval 50 \<noteq> 1"
  by (simp add: heartbeat_interval_def)

text \<open>
  Claim C9, amended: the interval is 0.5 seconds for at most 10 workers, 1 second for more
  than 10 and fewer than 50, 2 seconds from 50 up to and including 200, and
  \<open>n / 200 + 1\<close> seconds above 200.
\<close>

theorem heartbeat_interval_cases:
  "(n \<le> 10 \<longrightarrow> heartbeat_interval n = 1 / 2) \<and>
   (10 < n \<and> n < 50 \<longrightarrow> heartbeat_interval n = 1) \<and>
   (50 \<le> n \<and> n \<le> 200 \<longrightarrow> heartbeat_interval n = 2) \<and>
   (200 < n \<longrightarrow> heartbeat_interval n = of_int n / 200 + 1)"
  by (auto simp: heartbeat_interval_def)

theorem heartbeat_interval_cases_witness:
  "heartbeat_interval 10 = 1 / 2 \<and> heartbeat_interval 49 = 1 \<and>
   heartbeat_interval 50 = 2 \<and> heartbeat_interval 200 = 2 \<and>
   heartbeat_interval 400 = 3"
  using heartbeat_interval_cases [of 10] heartbeat_interval_cases [of 49]
    heartbeat_interval_cases [of 50] heartbeat_interval_cases [of 200]
    heartbeat_interval_cases [of 400]
  by simp

section \<open>Properties of the idle and saturated classification\<close>







section \<open>Properties of the valid workers of a task\<close>

text \<open>
  Claim C3, as stated, makes the result the intersection of the workers named by
  \<open>worker_restrictions\<close> and the workers on the hosts of \<open>host_restrictions\<close>.
  The source joins the two sets with \<^verbatim>\<open>s |= ss\<close>: a task restricted to the address of
  one worker and to the host of another is valid on both, although each of them fails one
  of the two restrictions.
\<close>

theorem valid_workers_union_counterexample:
  "valid_workers two_hosts ''x'' = Inr (Some {''tcp://h1:1'', ''tcp://h2:1''}, two_hosts) \<and>
   ''tcp://h2:1'' \<notin> the (ts_worker_restrictions (task_obj two_hosts ''x'')) \<and>
   ws_host (worker_obj two_hosts ''tcp://h1:1'')
     \<notin> the (ts_host_restrictions (task_obj two_hosts ''x''))"
  by (simp add: valid_workers_def two_hosts_def empty_scheduler_def new_task_def new_worker_def
      restrict_hosts_def restrict_workers_def restrict_resources_def restrict_running_def
      host_addresses_def coerce_hostname_def bind_err_def)

lemma restrict_workers_mem:
  "restrict_workers st ts = Some S \<Longrightarrow>
     (\<exists>wr. ts_worker_restrictions ts = Some wr \<and> wr \<noteq> {} \<and> S = wr \<inter> set (workers st))"
  by (auto simp: restrict_workers_def split: option.splits if_splits)

lemma restrict_workers_None:
  "restrict_workers st ts = None \<longleftrightarrow>
     (case ts_worker_restrictions ts of None \<Rightarrow> {} | Some wr \<Rightarrow> wr) = {}"
  by (auto simp: restrict_workers_def split: option.splits if_splits)

lemma restrict_hosts_None:
  "restrict_hosts st ts s = Inr None \<longleftrightarrow>
     s = None \<and> (case ts_host_restrictions ts of None \<Rightarrow> {} | Some hs \<Rightarrow> hs) = {}"
  by (auto simp: restrict_hosts_def Let_def split: option.splits if_splits)

lemma restrict_hosts_Some:
  "restrict_hosts st ts s = Inr (Some S) \<Longrightarrow>
     a \<in> S \<longleftrightarrow>
       (case ts_host_restrictions ts of None \<Rightarrow> {} | Some hs \<Rightarrow> hs) = {} \<and> (\<exists>s0. s = Some s0 \<and> a \<in> s0)
       \<or> (\<exists>s0. s = Some s0 \<and> a \<in> s0) \<and> (case ts_host_restrictions ts of None \<Rightarrow> {} | Some hs \<Rightarrow> hs) \<noteq> {}
       \<or> (\<exists>h\<in>(case ts_host_restrictions ts of None \<Rightarrow> {} | Some hs \<Rightarrow> hs). a \<in> host_addresses st h)"
  by (auto simp: restrict_hosts_def Let_def split: option.splits if_splits)

lemma restrict_resources_None:
  "restrict_resources st ts s = (None, st') \<longleftrightarrow>
     s = None \<and> st' = st \<and> (case ts_resource_restrictions ts of None \<Rightarrow> [] | Some rr \<Rightarrow> rr) = []"
  by (auto simp: restrict_resources_def Let_def split: option.splits if_splits)

lemma restrict_resources_Some:
  "restrict_resources st ts s = (Some S, st') \<Longrightarrow>
     a \<in> S \<longleftrightarrow>
       ((\<exists>s0. s = Some s0 \<and> a \<in> s0) \<or> s = None)
       \<and> (\<forall>(res, req)\<in>set (case ts_resource_restrictions ts of None \<Rightarrow> [] | Some rr \<Rightarrow> rr).
             a \<in> supplying st res req)"
  by (auto simp: restrict_resources_def Let_def split: option.splits if_splits)

lemma restrict_resources_Some_nonempty:
  "restrict_resources st ts None = (Some S, st') \<Longrightarrow>
     (case ts_resource_restrictions ts of None \<Rightarrow> [] | Some rr \<Rightarrow> rr) \<noteq> []"
  by (auto simp: restrict_resources_def Let_def split: option.splits if_splits)

lemma restrict_resources_fields:
  "restrict_resources st ts s = (s', st') \<Longrightarrow>
     running st' = running st \<and> workers st' = workers st"
  by (auto simp: restrict_resources_def Let_def split: option.splits if_splits)

lemma restrict_running_None:
  "restrict_running st s = Inr None \<longleftrightarrow>
     s = None \<and> \<not> int (card (running st)) < int (length (workers st))"
  by (auto simp: restrict_running_def split: option.splits if_splits)

lemma restrict_running_Some:
  "restrict_running st s = Inr (Some S) \<Longrightarrow>
     a \<in> S \<longleftrightarrow>
       ((\<exists>s0. s = Some s0 \<and> a \<in> s0) \<or> s = None)
       \<and> (int (card (running st)) < int (length (workers st)) \<longrightarrow> a \<in> running st)"
  by (auto simp: restrict_running_def split: option.splits if_splits)

lemma restrict_running_Some_None:
  "restrict_running st None = Inr (Some S) \<Longrightarrow>
     int (card (running st)) < int (length (workers st))"
  by (auto simp: restrict_running_def split: option.splits if_splits)

lemma valid_workers_unfold:
  assumes "valid_workers st k = Inr (r, st')"
  obtains s2 s3 where "restrict_hosts st (task_obj st k) (restrict_workers st (task_obj st k)) = Inr s2"
    and "restrict_resources st (task_obj st k) s2 = (s3, st')"
    and "restrict_running st' s3 = Inr r"
  using assms
  by (auto simp: valid_workers_def bind_err_def Let_def split: sum.splits prod.splits)

text \<open>
  Claim C3, amended: when \<^verbatim>\<open>valid_workers\<close> returns, the result is \<open>None\<close> exactly
  when the task has no worker, host or resource restriction and every connected worker is
  running. Otherwise it is the set of the addresses that (1) are a connected worker named by
  \<open>worker_restrictions\<close> or belong to a host named by \<open>host_restrictions\<close> (a
  union; no condition when both are unset), (2) supply every entry of
  \<open>resource_restrictions\<close> at the required quantity or more, and (3) are in the running
  set whenever fewer workers are running than are connected.
\<close>

theorem valid_workers_sets:
  assumes ret: "valid_workers st k = Inr (r, st')"
    and WR: "WR = (case ts_worker_restrictions (task_obj st k) of None \<Rightarrow> {} | Some wr \<Rightarrow> wr)"
    and HR: "HR = (case ts_host_restrictions (task_obj st k) of None \<Rightarrow> {} | Some hs \<Rightarrow> hs)"
    and RR: "RR = (case ts_resource_restrictions (task_obj st k) of None \<Rightarrow> [] | Some rr \<Rightarrow> rr)"
    and AR: "all_running \<longleftrightarrow> \<not> int (card (running st)) < int (length (workers st))"
  shows "(r = None \<longleftrightarrow> WR = {} \<and> HR = {} \<and> RR = [] \<and> all_running) \<and>
     (\<forall>S a. r = Some S \<longrightarrow>
        (a \<in> S \<longleftrightarrow>
           (WR = {} \<and> HR = {} \<or> a \<in> WR \<and> a \<in> set (workers st)
              \<or> (\<exists>h\<in>HR. a \<in> host_addresses st h))
           \<and> (\<forall>(res, req)\<in>set RR. a \<in> supplying st res req)
           \<and> (all_running \<or> a \<in> running st)))"
proof -
  obtain s2 s3 where
    h: "restrict_hosts st (task_obj st k) (restrict_workers st (task_obj st k)) = Inr s2"
    and rs: "restrict_resources st (task_obj st k) s2 = (s3, st')"
    and rr: "restrict_running st' s3 = Inr r"
    using ret by (rule valid_workers_unfold)
  have f: "running st' = running st" "workers st' = workers st"
    using restrict_resources_fields [OF rs] by auto
  have one: "r = None \<longleftrightarrow> WR = {} \<and> HR = {} \<and> RR = [] \<and> all_running"
  proof
    assume "r = None"
    then have "s3 = None" and ar: "\<not> int (card (running st')) < int (length (workers st'))"
      using rr restrict_running_None by auto
    then have "s2 = None" and "RR = []" using rs restrict_resources_None RR by auto
    then have "restrict_workers st (task_obj st k) = None" and "HR = {}"
      using h restrict_hosts_None HR by auto
    then show "WR = {} \<and> HR = {} \<and> RR = [] \<and> all_running"
      using \<open>RR = []\<close> ar f AR WR restrict_workers_None by auto
  next
    assume a: "WR = {} \<and> HR = {} \<and> RR = [] \<and> all_running"
    then have "restrict_workers st (task_obj st k) = None"
      using WR restrict_workers_None by auto
    then have "s2 = None" using h a HR
      by (auto simp: restrict_hosts_def split: option.splits if_splits)
    then have "s3 = None \<and> st' = st" using rs a RR
      by (auto simp: restrict_resources_def split: option.splits if_splits)
    then show "r = None" using rr a AR
      by (auto simp: restrict_running_def split: option.splits if_splits)
  qed
  have two: "a \<in> S \<longleftrightarrow>
           (WR = {} \<and> HR = {} \<or> a \<in> WR \<and> a \<in> set (workers st)
              \<or> (\<exists>h\<in>HR. a \<in> host_addresses st h))
           \<and> (\<forall>(res, req)\<in>set RR. a \<in> supplying st res req)
           \<and> (all_running \<or> a \<in> running st)" if rS: "r = Some S" for S a
  proof -
    define W where "W = restrict_workers st (task_obj st k)"
    have s2: "\<And>S2. s2 = Some S2 \<Longrightarrow> a \<in> S2 \<longleftrightarrow>
        (a \<in> WR \<and> a \<in> set (workers st) \<or> (\<exists>h\<in>HR. a \<in> host_addresses st h))"
    proof -
      fix S2 assume e: "s2 = Some S2"
      show "a \<in> S2 \<longleftrightarrow>
        (a \<in> WR \<and> a \<in> set (workers st) \<or> (\<exists>h\<in>HR. a \<in> host_addresses st h))"
        using h e WR HR
        by (auto simp: restrict_hosts_def restrict_workers_def Let_def
            split: option.splits if_splits)
    qed
    have s2n: "s2 = None \<longleftrightarrow> WR = {} \<and> HR = {}"
      using h WR HR
      by (auto simp: restrict_hosts_def restrict_workers_def Let_def
          split: option.splits if_splits)
    have s3: "\<And>S3. s3 = Some S3 \<Longrightarrow> a \<in> S3 \<longleftrightarrow>
        (WR = {} \<and> HR = {} \<or> a \<in> WR \<and> a \<in> set (workers st)
              \<or> (\<exists>h\<in>HR. a \<in> host_addresses st h))
        \<and> (\<forall>(res, req)\<in>set RR. a \<in> supplying st res req)"
    proof -
      fix S3 assume e: "s3 = Some S3"
      have "a \<in> S3 \<longleftrightarrow> ((\<exists>s0. s2 = Some s0 \<and> a \<in> s0) \<or> s2 = None)
           \<and> (\<forall>(res, req)\<in>set RR. a \<in> supplying st res req)"
        using restrict_resources_Some [of st "task_obj st k" s2 S3 st' a] rs e RR by simp
      then show "a \<in> S3 \<longleftrightarrow>
        (WR = {} \<and> HR = {} \<or> a \<in> WR \<and> a \<in> set (workers st)
              \<or> (\<exists>h\<in>HR. a \<in> host_addresses st h))
        \<and> (\<forall>(res, req)\<in>set RR. a \<in> supplying st res req)"
        using s2 s2n by (cases s2) auto
    qed
    have s3n: "s3 = None \<longleftrightarrow> WR = {} \<and> HR = {} \<and> RR = []"
      using rs s2n RR
      by (auto simp: restrict_resources_def Let_def split: option.splits if_splits)
    have r: "a \<in> S \<longleftrightarrow> ((\<exists>s0. s3 = Some s0 \<and> a \<in> s0) \<or> s3 = None)
       \<and> (int (card (running st')) < int (length (workers st')) \<longrightarrow> a \<in> running st')"
      using restrict_running_Some [of st' s3 S a] rr rS by simp
    show ?thesis
    proof (cases s3)
      case None
      then show ?thesis using r s3n f AR by auto
    next
      case (Some S3)
      then show ?thesis using r s3 [OF Some] f AR by auto
    qed
  qed
  show ?thesis using one two by blast
qed


theorem valid_workers_sets_witness:
  "valid_workers three_workers ''y'' = Inr (Some {''tcp://h1:1''}, three_workers) \<and>
   ''tcp://h1:1'' \<in> supplying three_workers ''gpu'' 1 \<and>
   ''tcp://h1:1'' \<in> running three_workers"
proof -
  have v: "valid_workers three_workers ''y'' = Inr (Some {''tcp://h1:1''}, three_workers)"
    by (simp add: valid_workers_def three_workers_def empty_scheduler_def new_task_def
        new_worker_def restrict_hosts_def restrict_workers_def restrict_resources_def
        restrict_running_def host_addresses_def coerce_hostname_def bind_err_def
        supplying_def insert_commute)
  have ar: "False \<longleftrightarrow>
      \<not> int (card (running three_workers)) < int (length (workers three_workers))"
    by (simp add: three_workers_def empty_scheduler_def)
  have c: "ts_resource_restrictions (task_obj three_workers ''y'') = Some [(''gpu'', 1)]"
    by (simp add: three_workers_def empty_scheduler_def new_task_def)
  note t = valid_workers_sets [OF v refl refl refl ar, THEN conjunct2, THEN spec, THEN spec,
      THEN mp, OF refl, of "''tcp://h1:1''"]
  have "''tcp://h1:1'' \<in> supplying three_workers ''gpu'' 1
      \<and> ''tcp://h1:1'' \<in> running three_workers"
    using t unfolding c by simp
  then show ?thesis using v by simp
qed

section \<open>Placement on workers that are not running\<close>

text \<open>
  Claim C10 at a failing input: the only connected worker is paused, the task names a
  worker that is not connected and has loose restrictions. \<^verbatim>\<open>valid_workers\<close> returns
  the empty set, and the fallback for loose restrictions chooses among all connected
  workers, so \<^verbatim>\<open>decide_worker\<close> returns the paused worker.
\<close>

theorem decide_worker_loose_paused:
  "decide_worker paused_cluster ''x'' = Inr (Some ''tcp://p:1'', paused_cluster) \<and>
   valid_workers paused_cluster ''x'' = Inr (Some {}, paused_cluster) \<and>
   ws_status (worker_obj paused_cluster ''tcp://p:1'') = Paused \<and>
   ''tcp://p:1'' \<notin> running paused_cluster"
  by (simp add: decide_worker_def decide_worker_fn_def decide_worker_any_def
      choose_candidate_def dependency_holders_def valid_workers_def paused_cluster_def
      empty_scheduler_def new_task_def new_worker_def restrict_hosts_def restrict_workers_def
      restrict_resources_def restrict_running_def host_addresses_def coerce_hostname_def
      bind_err_def is_rootish_def)

theorem decide_worker_loose_paused_witness:
  "map_sum id fst (decide_worker paused_cluster ''x'') = Inr (Some ''tcp://p:1'')"
  using decide_worker_loose_paused by simp

section \<open>Properties of the placement of root tasks\<close>







lemma valid_workers_None_state:
  assumes "valid_workers st k = Inr (None, st')"
  shows "st' = st"
  using assms
  by (auto simp: valid_workers_def bind_err_def Let_def restrict_resources_def
      restrict_running_def split: sum.splits prod.splits option.splits if_splits)











section \<open>The rebalance scenario of two workers\<close>

lemmas rebalance_defs = rebalance_find_msgs_def classify_def ws_memory_def new_memory_state_def
  py_int_def heapify_def heappush_def heappop_def heapreplace_def rebalance_round_def
  rebalance_cluster_def rebalance_task_def worker_id_def empty_scheduler_def new_worker_def
  new_task_def

text \<open>The input is the one of claim C7: 1200 and 0 bytes of measured memory.\<close>

lemma rebalance_cluster_measured:
  "get_measure (ws_memory (worker_obj rebalance_cluster ''tcp://A:1''))
     (memory_rebalance_measure rebalance_cluster) = 1200"
  "get_measure (ws_memory (worker_obj rebalance_cluster ''tcp://B:1''))
     (memory_rebalance_measure rebalance_cluster) = 0"
  by (simp_all add: rebalance_defs)

text \<open>
  Claim C7, as stated, has exactly two moves, of k1 and k2. After these two moves the
  sender is at 800 bytes, still 200 above the mean of 600 and so more than the half gap of
  100 bytes away from it; it stays in the heap and k3 is moved as well.
\<close>

theorem rebalance_two_moves_counterexample:
  "rebalance_find_msgs rebalance_cluster worker_id None [''tcp://A:1'', ''tcp://B:1''] \<noteq>
     Inr [(''tcp://A:1'', ''tcp://B:1'', ''k1''), (''tcp://A:1'', ''tcp://B:1'', ''k2'')]"
  by (simp add: rebalance_defs Let_def)

text \<open>
  Claim C7, amended: on this input the pairing algorithm outputs exactly three moves, of the
  three least recently inserted keys k1, k2 and k3, from A to B.
\<close>

theorem rebalance_three_moves:
  "rebalance_find_msgs rebalance_cluster worker_id None [''tcp://A:1'', ''tcp://B:1''] =
     Inr [(''tcp://A:1'', ''tcp://B:1'', ''k1''), (''tcp://A:1'', ''tcp://B:1'', ''k2''),
          (''tcp://A:1'', ''tcp://B:1'', ''k3'')]"
  by (simp add: rebalance_defs Let_def)

section \<open>What the helpers and handlers leave unchanged\<close>


lemma task_obj_upd_worker [simp]: "task_obj (upd_worker st a f) = task_obj st"
  and tasks_upd_worker [simp]: "tasks (upd_worker st a f) = tasks st"
  and workers_upd_worker [simp]: "workers (upd_worker st a f) = workers st"
  by (simp_all add: upd_worker_def)

lemma task_obj_upd_task [simp]: "task_obj (upd_task st k f) = (task_obj st)(k := f (task_obj st k))"
  and tasks_upd_task [simp]: "tasks (upd_task st k f) = tasks st"
  and workers_upd_task [simp]: "workers (upd_task st k f) = workers st"
  and worker_obj_upd_task [simp]: "worker_obj (upd_task st k f) = worker_obj st"
  by (simp_all add: upd_task_def)

lemma task_obj_upd_tasks [simp]:
  "task_obj (upd_tasks st ks f) d = (if d \<in> ks then f (task_obj st d) else task_obj st d)"
  and tasks_upd_tasks [simp]: "tasks (upd_tasks st ks f) = tasks st"
  and workers_upd_tasks [simp]: "workers (upd_tasks st ks f) = workers st"
  and worker_obj_upd_tasks [simp]: "worker_obj (upd_tasks st ks f) = worker_obj st"
  by (simp_all add: upd_tasks_def)

lemma task_obj_set_state [simp]:
  "task_obj (set_state st k v) = (task_obj st)(k := (task_obj st k)\<lparr>ts_state := v\<rparr>)"
  and tasks_set_state [simp]: "tasks (set_state st k v) = tasks st"
  and workers_set_state [simp]: "workers (set_state st k v) = workers st"
  and worker_obj_set_state [simp]: "worker_obj (set_state st k v) = worker_obj st"
  by (simp_all add: set_state_def Let_def)

















section \<open>Properties of the transition engine\<close>

lemma table_dom:
  "transitions_table p \<noteq> None \<longleftrightarrow>
     p \<in> {(Released, Waiting), (Waiting, Released), (Waiting, Processing), (Waiting, Memory),
          (Processing, Released), (Processing, Memory), (Processing, Erred),
          (No_worker, Released), (No_worker, Waiting), (No_worker, Memory),
          (Released, Forgotten), (Memory, Forgotten), (Erred, Released), (Memory, Released),
          (Released, Erred)}"
  by (cases p; cases "fst p"; cases "snd p")
     (simp_all add: transitions_table_def transitions_table_entries_def)

lemma transition_released_eq_direct:
  "transition st k Released kw = transition_direct st k Released kw"
  by (simp add: transition_def transition_direct_def Let_def split: option.splits)


lemmas engine_defs = transition_def transition_direct_def transitions_table_def
  transitions_table_entries_def key_only_def finish_transition_def log_append_def
  set_state_def upd_task_def upd_tasks_def upd_worker_def recommend_def send_to_def
  bind_err_def merge_msgs_def

text \<open>
  Claim C1, as stated, has every request outside the table carried out as
  \<open>start \<rightarrow> released \<rightarrow> v\<close> unless the task is released. A task that has erred and is
  asked to go to \<open>processing\<close> is first released; the first step recommends nothing for
  it, so \<open>v\<close> is \<open>processing\<close>, the table has no edge from \<open>released\<close> to
  \<open>processing\<close>, and the lookup raises \<^verbatim>\<open>KeyError\<close>.
\<close>

theorem transition_compound_counterexample:
  "''x'' \<in> tasks erred_cluster
   \<and> ts_state (task_obj erred_cluster ''x'') = Erred
   \<and> transitions_table (Erred, Processing) = None
   \<and> transition erred_cluster ''x'' Processing no_kwargs = Inl KeyError"
  by (simp add: engine_defs transition_erred_released_def
      erred_cluster_def empty_scheduler_def new_task_def new_group_def Let_def)

text \<open>
  Claim C1, amended: the table has exactly the fifteen edges listed. For a task in the task
  table whose state \<open>start\<close> differs from the requested \<open>finish\<close>: an edge of the
  table runs its handler; a request outside the table raises \<^verbatim>\<open>RuntimeError\<close> when
  \<open>start\<close> or \<open>finish\<close> is \<open>released\<close>, and \<^verbatim>\<open>AssertionError\<close> when it
  comes with keyword arguments; otherwise the engine first makes the transition to
  \<open>released\<close> (passing on its error, if any), takes for \<open>v\<close> the recommendation of
  that step for the key, or \<open>finish\<close> if there is none, raises \<^verbatim>\<open>KeyError\<close> when
  the table has no edge from \<open>released\<close> to \<open>v\<close>, and else runs the handler of that
  edge and returns the recommendations and messages of both steps.
\<close>

theorem transition_dispatch:
  assumes present: "k \<in> tasks st" and start: "start = ts_state (task_obj st k)"
    and differ: "start \<noteq> finish"
  shows
    "(\<forall>p. transitions_table p \<noteq> None \<longleftrightarrow>
        p \<in> {(Released, Waiting), (Waiting, Released), (Waiting, Processing), (Waiting, Memory),
             (Processing, Released), (Processing, Memory), (Processing, Erred),
             (No_worker, Released), (No_worker, Waiting), (No_worker, Memory),
             (Released, Forgotten), (Memory, Forgotten), (Erred, Released), (Memory, Released),
             (Released, Erred)})
     \<and> (\<forall>h. transitions_table (start, finish) = Some h \<longrightarrow>
          transition st k finish kw =
            bind_err (run_handler h st k kw) (\<lambda>(r, cm, wm, st1).
              finish_transition (st1\<lparr>transition_counter := transition_counter st1 + 1\<rparr>)
                k start r cm wm))
     \<and> (transitions_table (start, finish) = None \<and> (start = Released \<or> finish = Released) \<longrightarrow>
          transition st k finish kw = Inl RuntimeError)
     \<and> (transitions_table (start, finish) = None \<and> start \<noteq> Released \<and> finish \<noteq> Released
          \<and> kw \<noteq> no_kwargs \<longrightarrow>
          transition st k finish kw = Inl AssertionError)
     \<and> (transitions_table (start, finish) = None \<and> start \<noteq> Released \<and> finish \<noteq> Released
          \<and> kw = no_kwargs \<longrightarrow>
          (\<forall>e. transition st k Released no_kwargs = Inl e \<longrightarrow> transition st k finish kw = Inl e)
          \<and> (\<forall>a_recs a_cm a_wm st1.
                transition st k Released no_kwargs = Inr (a_recs, a_cm, a_wm, st1) \<longrightarrow>
                (transitions_table (Released, case a_recs k of None \<Rightarrow> finish | Some v \<Rightarrow> v) = None
                   \<longrightarrow> transition st k finish kw = Inl KeyError)
                \<and> (\<forall>h. transitions_table (Released, case a_recs k of None \<Rightarrow> finish | Some v \<Rightarrow> v)
                          = Some h \<longrightarrow>
                      transition st k finish kw =
                        bind_err (run_handler h st1 k no_kwargs) (\<lambda>(b_recs, b_cm, b_wm, st2).
                          finish_transition st2 k Released (a_recs ++ b_recs)
                            (merge_msgs a_cm b_cm) (merge_msgs a_wm b_wm)))))"
proof -
  have direct: "transition st k finish kw =
            bind_err (run_handler h st k kw) (\<lambda>(r, cm, wm, st1).
              finish_transition (st1\<lparr>transition_counter := transition_counter st1 + 1\<rparr>)
                k start r cm wm)"
    if "transitions_table (start, finish) = Some h" for h
    using that present start differ
    by (simp add: transition_def transition_direct_def Let_def)
  have rejected: "transition st k finish kw = Inl RuntimeError"
    if "transitions_table (start, finish) = None" "start = Released \<or> finish = Released"
    using that present start differ by (auto simp: transition_def Let_def)
  have asserted: "transition st k finish kw = Inl AssertionError"
    if "transitions_table (start, finish) = None" "start \<noteq> Released" "finish \<noteq> Released"
      "kw \<noteq> no_kwargs"
    using that present start differ by (simp add: transition_def Let_def)
  have compound: "transition st k finish kw =
      bind_err (transition st k Released no_kwargs) (\<lambda>(a_recs, a_cm, a_wm, st1).
        case transitions_table (Released, case a_recs k of None \<Rightarrow> finish | Some v \<Rightarrow> v) of
          None \<Rightarrow> Inl KeyError
        | Some h \<Rightarrow>
            bind_err (run_handler h st1 k no_kwargs) (\<lambda>(b_recs, b_cm, b_wm, st2).
              finish_transition st2 k Released (a_recs ++ b_recs)
                (merge_msgs a_cm b_cm) (merge_msgs a_wm b_wm)))"
    if "transitions_table (start, finish) = None" "start \<noteq> Released" "finish \<noteq> Released"
      "kw = no_kwargs"
    unfolding transition_released_eq_direct
    using that present start differ by (simp add: transition_def Let_def)
  have c1: "transition st k finish kw = Inl e"
    if "transitions_table (start, finish) = None" "start \<noteq> Released" "finish \<noteq> Released"
      "kw = no_kwargs" "transition st k Released no_kwargs = Inl e" for e
    using compound [OF that(1-4)] that(5) by (simp add: bind_err_def)
  have c2: "transition st k finish kw = Inl KeyError"
    if "transitions_table (start, finish) = None" "start \<noteq> Released" "finish \<noteq> Released"
      "kw = no_kwargs" "transition st k Released no_kwargs = Inr (a_recs, a_cm, a_wm, st1)"
      "transitions_table (Released, case a_recs k of None \<Rightarrow> finish | Some v \<Rightarrow> v) = None"
    for a_recs a_cm a_wm st1
    using compound [OF that(1-4)] that(5,6) by (simp add: bind_err_def)
  have c3: "transition st k finish kw =
                        bind_err (run_handler h st1 k no_kwargs) (\<lambda>(b_recs, b_cm, b_wm, st2).
                          finish_transition st2 k Released (a_recs ++ b_recs)
                            (merge_msgs a_cm b_cm) (merge_msgs a_wm b_wm))"
    if "transitions_table (start, finish) = None" "start \<noteq> Released" "finish \<noteq> Released"
      "kw = no_kwargs" "transition st k Released no_kwargs = Inr (a_recs, a_cm, a_wm, st1)"
      "transitions_table (Released, case a_recs k of None \<Rightarrow> finish | Some v \<Rightarrow> v) = Some h"
    for a_recs a_cm a_wm st1 h
    using compound [OF that(1-4)] that(5,6) by (simp add: bind_err_def)
  show ?thesis
    using table_dom direct rejected asserted c1 c2 c3 by blast
qed

lemmas handler_defs = transition_processing_released_def remove_from_processing_def
  check_idle_saturated_def release_resources_def consume_resources_def adjust_resources_def
  dict_del_def dict_set_def
  transition_released_waiting_def wait_for_dependencies_def run_or_park_def
  transition_processing_erred_def drop_actor_def mark_erred_def
  release_fire_and_forget_def client_releases_keys_def
  client_releases_key_def pending_metric_def

lemmas retry_defs = retry_cluster_def no_retry_cluster_def empty_scheduler_def new_task_def
  new_group_def new_worker_def no_kwargs_def erred_kwargs_def

theorem transition_dispatch_witness:
  "''x'' \<in> tasks retry_cluster
   \<and> ts_state (task_obj retry_cluster ''x'') = Processing
   \<and> transitions_table (Processing, Waiting) = None
   \<and> map_sum id (\<lambda>(r, cm, wm, st'). (r ''x'', wm ''tcp://w:1'', ts_state (task_obj st' ''x'')))
        (transition retry_cluster ''x'' Released no_kwargs) =
       Inr (Some Waiting, Some [Free_keys [''x'']], Released)
   \<and> map_sum id (\<lambda>(r, cm, wm, st'). (r ''x'', wm ''tcp://w:1'', ts_state (task_obj st' ''x'')))
        (transition retry_cluster ''x'' Waiting no_kwargs) =
       Inr (Some Processing, Some [Free_keys [''x'']], Waiting)"
proof -
  have present: "''x'' \<in> tasks retry_cluster"
    and start: "Processing = ts_state (task_obj retry_cluster ''x'')"
    and differ: "Processing \<noteq> Waiting"
    and absent: "transitions_table (Processing, Waiting) = None"
    by (simp_all add: retry_defs transitions_table_def transitions_table_entries_def)
  have a: "map_sum id (\<lambda>(r, cm, wm, st'). (r ''x'', wm ''tcp://w:1'', ts_state (task_obj st' ''x'')))
        (transition retry_cluster ''x'' Released no_kwargs) =
       Inr (Some Waiting, Some [Free_keys [''x'']], Released)"
    by (simp add: engine_defs handler_defs retry_defs Let_def)
  then obtain a_recs a_cm a_wm st1 where
    ar: "transition retry_cluster ''x'' Released no_kwargs = Inr (a_recs, a_cm, a_wm, st1)"
    and ax: "a_recs ''x'' = Some Waiting"
    by (cases "transition retry_cluster ''x'' Released no_kwargs") auto
  have tab: "transitions_table (Released, case a_recs ''x'' of None \<Rightarrow> Waiting | Some v \<Rightarrow> v)
      = Some Released_waiting"
    using ax by (simp add: transitions_table_def transitions_table_entries_def)
  have pre: "transitions_table (Processing, Waiting) = None \<and> Processing \<noteq> Released
      \<and> Waiting \<noteq> Released \<and> no_kwargs = no_kwargs"
    using absent by simp
  note t = transition_dispatch [OF present start differ, of no_kwargs, THEN conjunct2,
      THEN conjunct2, THEN conjunct2, THEN conjunct2, THEN mp, OF pre, THEN conjunct2,
      THEN spec, THEN spec, THEN spec, THEN spec, THEN mp, OF ar, THEN conjunct2,
      THEN spec, THEN mp, OF tab]
  have b: "map_sum id (\<lambda>(r, cm, wm, st'). (r ''x'', wm ''tcp://w:1'', ts_state (task_obj st' ''x'')))
        (transition retry_cluster ''x'' Waiting no_kwargs) =
       Inr (Some Processing, Some [Free_keys [''x'']], Waiting)"
    by (simp add: engine_defs handler_defs retry_defs Let_def)
  have "transition retry_cluster ''x'' Waiting no_kwargs =
      bind_err (run_handler Released_waiting st1 ''x'' no_kwargs) (\<lambda>(b_recs, b_cm, b_wm, st2).
        finish_transition st2 ''x'' Released (a_recs ++ b_recs)
          (merge_msgs a_cm b_cm) (merge_msgs a_wm b_wm))"
    by (rule t)
  then show ?thesis using present start absent a b by simp
qed

section \<open>Retries of a task that erred\<close>







end
